theory Spec2Isabelle
  imports Main "HOL-Library.Word" "HOL-Library.AList"
begin

unbundle bit_operations_syntax

section \<open>Data model\<close>

text \<open>
  Python integers are unbounded, so addresses, offsets and sizes are \<open>int\<close>.
  \<open>FileSectionType\<close> is the enum the sources compare against
  (\<open>FileSectionType.Unknown\<close>, \<open>.Text\<close>, \<open>.Data\<close>, \<open>.Rodata\<close>, \<open>.Bss\<close>).
\<close>

datatype FileSectionType = Unknown | Text | Data | Rodata | Bss

text \<open>
  Modelled from the spec: the type tag of a ContextSymbol (ContextSymbols.py is not among
  the sources). The spec lists the tagged union
  \<open>{ Function, BranchLabel, JumpTable, JumpTableLabel, HardwareReg, Constant, Byte, Short,
  Word, Float, Double, String, CString, Notype, UserString(s) }\<close>; the first six are the
  members of \<open>SymbolSpecialType\<close> that SymbolsSegment.py assigns and compares.
\<close>

datatype SymbolType =
    Function | BranchLabel | JumpTable | JumpTableLabel | HardwareReg | Constant
  | Byte | Short | Word | Float | Double | String | CString | Notype
  | UserString string

text \<open>
  Modelled from the spec: the ContextSymbol record (ContextSymbols.py is not among the
  sources). Field names follow the attribute names the sources use (\<open>vromAddress\<close>,
  \<open>sectionType\<close>); \<open>type\<close> and \<open>size\<close> are written \<open>symType\<close> and \<open>symSize\<close>.
  An unset optional attribute (\<open>None\<close>) is \<open>None\<close>. The reference sets hold the addresses
  of the referencing symbols in iteration order.
\<close>

record ContextSymbol =
  vram :: int
  vromAddress :: "int option"
  name :: "string option"
  symType :: "SymbolType option"
  symSize :: "int option"
  sectionType :: FileSectionType
  isDefined :: bool
  isUserDeclared :: bool
  isAutogenerated :: bool
  isGotLocal :: bool
  isGotGlobal :: bool
  isGot :: bool
  unknownSegment :: bool
  isElfNotype :: bool
  referenceFunctions :: "int list"
  referenceSymbols :: "int list"
  overlayCategory :: "string option"

text \<open>\<open>ContextSymbol(address)\<close>: a fresh symbol, every optional attribute unset.\<close>

definition newContextSymbol :: "int \<Rightarrow> ContextSymbol" where
  "newContextSymbol address =
     \<lparr> vram = address, vromAddress = None, name = None, symType = None, symSize = None,
       sectionType = Unknown, isDefined = False, isUserDeclared = False,
       isAutogenerated = False, isGotLocal = False, isGotGlobal = False, isGot = False,
       unknownSegment = False, isElfNotype = False, referenceFunctions = [],
       referenceSymbols = [], overlayCategory = None \<rparr>"

text \<open>
  Modelled from the spec: \<open>ContextSymbol.getSize()\<close> (ContextSymbols.py is not among the
  sources). The spec's contract of getSymbol treats an unset size like a zero size
  ("when size is zero/unset"), so an unset size counts as 0.
\<close>

definition getSize :: "ContextSymbol \<Rightarrow> int" where
  "getSize c = (case symSize c of None \<Rightarrow> 0 | Some n \<Rightarrow> n)"

subsection \<open>SortedDict\<close>

text \<open>
  Modelled from the spec: SortedDict (SortedDict.py is not among the sources), "an ordered
  associative container keyed by address". It is an association list read through
  \<open>map_of\<close>; every ordered operation walks the sorted, duplicate-free key list, so the
  order of the underlying list never shows.
\<close>

type_synonym 'v SortedDict = "(int \<times> 'v) list"

definition sd_get :: "'v SortedDict \<Rightarrow> int \<Rightarrow> 'v option" where
  "sd_get d k = map_of d k"

definition sd_set :: "'v SortedDict \<Rightarrow> int \<Rightarrow> 'v \<Rightarrow> 'v SortedDict" where
  "sd_set d k v = AList.update k v d"

definition sd_keys :: "'v SortedDict \<Rightarrow> int list" where
  "sd_keys d = sort (remdups (map fst d))"

definition sd_items :: "'v SortedDict \<Rightarrow> int list \<Rightarrow> (int \<times> 'v) list" where
  "sd_items d ks = List.map_filter (\<lambda>k. map_option (Pair k) (map_of d k)) ks"

text \<open>\<open>getKeyRight(k, inclusive)\<close>: the greatest entry whose key is \<open>\<le> k\<close> (or \<open>< k\<close>);
  none if there is no such entry.\<close>

definition getKeyRight :: "'v SortedDict \<Rightarrow> int \<Rightarrow> bool \<Rightarrow> (int \<times> 'v) option" where
  "getKeyRight d key inclusive =
     (let ks = filter (\<lambda>k. if inclusive then k \<le> key else k < key) (map fst d)
      in if ks = [] then None
         else (let m = Max (set ks)
               in case map_of d m of None \<Rightarrow> None | Some v \<Rightarrow> Some (m, v)))"

definition inRange :: "int \<Rightarrow> int \<Rightarrow> bool \<Rightarrow> bool \<Rightarrow> int \<Rightarrow> bool" where
  "inRange lo hi startInclusive endInclusive k =
     ((if startInclusive then lo \<le> k else lo < k) \<and> (if endInclusive then k \<le> hi else k < hi))"

text \<open>\<open>getRange(lo, hi, startInclusive, endInclusive)\<close>: the entries in range, ascending.\<close>

definition getRange :: "'v SortedDict \<Rightarrow> int \<Rightarrow> int \<Rightarrow> bool \<Rightarrow> bool \<Rightarrow> (int \<times> 'v) list" where
  "getRange d lo hi startInclusive endInclusive =
     sd_items d (filter (inRange lo hi startInclusive endInclusive) (sd_keys d))"

text \<open>\<open>getRangeAndPop\<close>: yields the entries in range, ascending, and removes them.\<close>

definition getRangeAndPop ::
  "'v SortedDict \<Rightarrow> int \<Rightarrow> int \<Rightarrow> bool \<Rightarrow> bool \<Rightarrow> (int \<times> 'v) list \<times> 'v SortedDict" where
  "getRangeAndPop d lo hi startInclusive endInclusive =
     (getRange d lo hi startInclusive endInclusive,
      filter (\<lambda>p. \<not> inRange lo hi startInclusive endInclusive (fst p)) d)"

subsection \<open>GlobalConfig\<close>

datatype Compiler = IDO | GCC | SN64 | PSYQ

datatype InputEndian = BIG | LITTLE

text \<open>
  The process-wide configuration object (GlobalConfig.py is not among the sources): the
  flags the modelled functions read, passed explicitly.
\<close>

record GlobalConfig =
  PRODUCE_SYMBOLS_PLUS_OFFSET :: bool
  ASM_COMMENT :: bool
  ASM_COMMENT_OFFSET_WIDTH :: nat
  ASM_DATA_SYM_AS_LABEL :: bool
  ASM_REFERENCEE_SYMBOLS :: bool
  AUTOGENERATED_NAMES_BASED_ON_DATA_TYPE :: bool
  COMPILER :: Compiler
  ENDIAN :: InputEndian
  LINE_ENDS :: string

subsection \<open>SymbolsSegment\<close>

record SymbolsSegment =
  vromStart :: "int option"
  vromEnd :: "int option"
  vramStart :: int
  vramEnd :: int
  segOverlayCategory :: "string option"
  symbols :: "ContextSymbol SortedDict"
  constants :: "(int \<times> ContextSymbol) list"
  newPointersInData :: "int SortedDict"
  loPatches :: "(int \<times> int) list"
  dataSymbolsWithReferencesWithAddends :: "int set"
  dataReferencingConstants :: "int set"
  isTheUnknownSegment :: bool

text \<open>
  A ContextSymbol is a mutable object shared between the dictionary and whoever holds the
  reference \<open>addSymbol\<close> returned. The model keeps the object in the dictionary only:
  an attribute assignment through a reference to the symbol stored at \<open>address\<close> is
  \<open>storeSym\<close> of the updated record at that key.
\<close>

definition storeSym :: "SymbolsSegment \<Rightarrow> int \<Rightarrow> ContextSymbol \<Rightarrow> SymbolsSegment" where
  "storeSym seg address contextSym = seg\<lparr>symbols := sd_set (symbols seg) address contextSym\<rparr>"

definition addSymbol ::
  "SymbolsSegment \<Rightarrow> int \<Rightarrow> FileSectionType \<Rightarrow> bool \<Rightarrow> int option \<Rightarrow> SymbolsSegment \<times> ContextSymbol" where
  "addSymbol seg address sectionType' isAutogenerated' vromAddress' =
     (let contextSym =
            (case sd_get (symbols seg) address of
               None \<Rightarrow> (newContextSymbol address)
                         \<lparr> sectionType := sectionType', isAutogenerated := isAutogenerated',
                           overlayCategory := segOverlayCategory seg \<rparr>
             | Some c \<Rightarrow> c);
          contextSym =
            (if sectionType contextSym = Unknown
             then contextSym\<lparr>sectionType := sectionType'\<rparr> else contextSym);
          contextSym =
            (if vromAddress contextSym = None \<and> vromAddress' \<noteq> None
             then contextSym\<lparr>vromAddress := vromAddress'\<rparr> else contextSym);
          contextSym =
            (if vromStart seg = None \<or> vromEnd seg = None \<or> isTheUnknownSegment seg
             then contextSym\<lparr>unknownSegment := True\<rparr> else contextSym)
      in (storeSym seg address contextSym, contextSym))"

definition addFunction ::
  "SymbolsSegment \<Rightarrow> int \<Rightarrow> bool \<Rightarrow> int option \<Rightarrow> SymbolsSegment \<times> ContextSymbol" where
  "addFunction seg address isAutogenerated' vromAddress' =
     (let (seg, contextSym) = addSymbol seg address Text isAutogenerated' vromAddress';
          contextSym =
            (if symType contextSym \<noteq> Some JumpTableLabel
             then contextSym\<lparr>symType := Some Function\<rparr> else contextSym);
          contextSym = contextSym\<lparr>sectionType := Text\<rparr>
      in (storeSym seg address contextSym, contextSym))"

definition addBranchLabel ::
  "SymbolsSegment \<Rightarrow> int \<Rightarrow> bool \<Rightarrow> int option \<Rightarrow> SymbolsSegment \<times> ContextSymbol" where
  "addBranchLabel seg address isAutogenerated' vromAddress' =
     (let (seg, contextSym) = addSymbol seg address Text isAutogenerated' vromAddress';
          contextSym =
            (if symType contextSym \<noteq> Some JumpTableLabel \<and> symType contextSym \<noteq> Some Function
             then contextSym\<lparr>symType := Some BranchLabel\<rparr> else contextSym)
      in (storeSym seg address contextSym, contextSym))"

definition addJumpTable ::
  "SymbolsSegment \<Rightarrow> int \<Rightarrow> bool \<Rightarrow> int option \<Rightarrow> SymbolsSegment \<times> ContextSymbol" where
  "addJumpTable seg address isAutogenerated' vromAddress' =
     (let (seg, contextSym) = addSymbol seg address Rodata isAutogenerated' vromAddress';
          contextSym =
            (if symType contextSym \<noteq> Some Function
             then contextSym\<lparr>symType := Some JumpTable\<rparr> else contextSym)
      in (storeSym seg address contextSym, contextSym))"

definition addJumpTableLabel ::
  "SymbolsSegment \<Rightarrow> int \<Rightarrow> bool \<Rightarrow> int option \<Rightarrow> SymbolsSegment \<times> ContextSymbol" where
  "addJumpTableLabel seg address isAutogenerated' vromAddress' =
     (let (seg, contextSym) = addSymbol seg address Text isAutogenerated' vromAddress';
          contextSym = contextSym\<lparr>symType := Some JumpTableLabel\<rparr>;
          contextSym = contextSym\<lparr>sectionType := Text\<rparr>
      in (storeSym seg address contextSym, contextSym))"

text \<open>
  \<open>getSymbol\<close>: with \<open>PRODUCE_SYMBOLS_PLUS_OFFSET\<close> and \<open>tryPlusOffset\<close> the predecessor
  entry is looked up and rejected when \<open>checkUpperLimit\<close> holds and the address is at or
  past \<open>symVram + contextSym.getSize()\<close>; otherwise the lookup is exact.
\<close>

definition getSymbol ::
  "GlobalConfig \<Rightarrow> SymbolsSegment \<Rightarrow> int \<Rightarrow> bool \<Rightarrow> bool \<Rightarrow> ContextSymbol option" where
  "getSymbol cfg seg address tryPlusOffset checkUpperLimit =
     (if PRODUCE_SYMBOLS_PLUS_OFFSET cfg \<and> tryPlusOffset then
        (case getKeyRight (symbols seg) address True of
           None \<Rightarrow> None
         | Some (symVram, contextSym) \<Rightarrow>
             if checkUpperLimit \<and> address \<ge> symVram + getSize contextSym then None
             else Some contextSym)
      else sd_get (symbols seg) address)"

definition getSymbolsRange :: "SymbolsSegment \<Rightarrow> int \<Rightarrow> int \<Rightarrow> (int \<times> ContextSymbol) list" where
  "getSymbolsRange seg addressStart addressEnd =
     getRange (symbols seg) addressStart addressEnd True False"

definition getAndPopPointerInDataReferencesRange ::
  "SymbolsSegment \<Rightarrow> int \<Rightarrow> int \<Rightarrow> int list \<times> SymbolsSegment" where
  "getAndPopPointerInDataReferencesRange seg low high =
     (let (popped, rest) = getRangeAndPop (newPointersInData seg) low high True False
      in (map fst popped, seg\<lparr>newPointersInData := rest\<rparr>))"

text \<open>The class attribute \<open>N64HardwareRegs\<close>, in the order the dictionary literal lists it.\<close>

definition N64HardwareRegs :: "(int \<times> string) list" where
  "N64HardwareRegs =
   [ (0xA4040000, ''SP_MEM_ADDR_REG''),
     (0xA4040004, ''SP_DRAM_ADDR_REG''),
     (0xA4040008, ''SP_RD_LEN_REG''),
     (0xA404000C, ''SP_WR_LEN_REG''),
     (0xA4040010, ''SP_STATUS_REG''),
     (0xA4040014, ''SP_DMA_FULL_REG''),
     (0xA4040018, ''SP_DMA_BUSY_REG''),
     (0xA404001C, ''SP_SEMAPHORE_REG''),
     (0xA4080000, ''SP_PC''),
     (0xA4100000, ''DPC_START_REG''),
     (0xA4100004, ''DPC_END_REG''),
     (0xA4100008, ''DPC_CURRENT_REG''),
     (0xA410000C, ''DPC_STATUS_REG''),
     (0xA4100010, ''DPC_CLOCK_REG''),
     (0xA4100014, ''DPC_BUFBUSY_REG''),
     (0xA4100018, ''DPC_PIPEBUSY_REG''),
     (0xA410001C, ''DPC_TMEM_REG''),
     (0xA4200000, ''DPS_TBIST_REG''),
     (0xA4200004, ''DPS_TEST_MODE_REG''),
     (0xA4200008, ''DPS_BUFTEST_ADDR_REG''),
     (0xA420000C, ''DPS_BUFTEST_DATA_REG''),
     (0xA4300000, ''MI_MODE_REG''),
     (0xA4300004, ''MI_VERSION_REG''),
     (0xA4300008, ''MI_INTR_REG''),
     (0xA430000C, ''MI_INTR_MASK_REG''),
     (0xA4400000, ''VI_STATUS_REG''),
     (0xA4400004, ''VI_DRAM_ADDR_REG''),
     (0xA4400008, ''VI_WIDTH_REG''),
     (0xA440000C, ''VI_INTR_REG''),
     (0xA4400010, ''VI_CURRENT_REG''),
     (0xA4400014, ''VI_BURST_REG''),
     (0xA4400018, ''VI_V_SYNC_REG''),
     (0xA440001C, ''VI_H_SYNC_REG''),
     (0xA4400020, ''VI_LEAP_REG''),
     (0xA4400024, ''VI_H_START_REG''),
     (0xA4400028, ''VI_V_START_REG''),
     (0xA440002C, ''VI_V_BURST_REG''),
     (0xA4400030, ''VI_X_SCALE_REG''),
     (0xA4400034, ''VI_Y_SCALE_REG''),
     (0xA4500000, ''AI_DRAM_ADDR_REG''),
     (0xA4500004, ''AI_LEN_REG''),
     (0xA4500008, ''AI_CONTROL_REG''),
     (0xA450000C, ''AI_STATUS_REG''),
     (0xA4500010, ''AI_DACRATE_REG''),
     (0xA4500014, ''AI_BITRATE_REG''),
     (0xA4600000, ''PI_DRAM_ADDR_REG''),
     (0xA4600004, ''PI_CART_ADDR_REG''),
     (0xA4600005, ''D_A4600005''),
     (0xA4600006, ''D_A4600006''),
     (0xA4600007, ''D_A4600007''),
     (0xA4600008, ''PI_RD_LEN_REG''),
     (0xA460000C, ''PI_WR_LEN_REG''),
     (0xA4600010, ''PI_STATUS_REG''),
     (0xA4600014, ''PI_BSD_DOM1_LAT_REG''),
     (0xA4600018, ''PI_BSD_DOM1_PWD_REG''),
     (0xA460001C, ''PI_BSD_DOM1_PGS_REG''),
     (0xA4600020, ''PI_BSD_DOM1_RLS_REG''),
     (0xA4600024, ''PI_BSD_DOM2_LAT_REG''),
     (0xA4600028, ''PI_BSD_DOM2_LWD_REG''),
     (0xA460002C, ''PI_BSD_DOM2_PGS_REG''),
     (0xA4600030, ''PI_BSD_DOM2_RLS_REG''),
     (0xA4700000, ''RI_MODE_REG''),
     (0xA4700004, ''RI_CONFIG_REG''),
     (0xA4700008, ''RI_CURRENT_LOAD_REG''),
     (0xA470000C, ''RI_SELECT_REG''),
     (0xA4700010, ''RI_REFRESH_REG''),
     (0xA4700014, ''RI_LATENCY_REG''),
     (0xA4700018, ''RI_RERROR_REG''),
     (0xA470001C, ''RI_WERROR_REG''),
     (0xA4800000, ''SI_DRAM_ADDR_REG''),
     (0xA4800004, ''SI_PIF_ADDR_RD64B_REG''),
     (0xA4800008, ''D_A4800008''),
     (0xA480000C, ''D_A480000C''),
     (0xA4800010, ''SI_PIF_ADDR_WR64B_REG''),
     (0xA4800014, ''D_A4800014''),
     (0xA4800018, ''SI_STATUS_REG'') ]"

text \<open>One iteration of the loop of \<open>fillHardwareRegs\<close>, and the loop over a table.\<close>

definition fillHardwareRegs_body :: "bool \<Rightarrow> SymbolsSegment \<Rightarrow> int \<times> string \<Rightarrow> SymbolsSegment" where
  "fillHardwareRegs_body useRealNames seg entry =
     (let vram' = fst entry;
          name' = snd entry;
          nameToUse = (if useRealNames then Some name' else None);
          (seg, contextSym) = addSymbol seg vram' Unknown False None;
          contextSym = contextSym\<lparr>name := nameToUse\<rparr>;
          contextSym = contextSym\<lparr>symType := Some HardwareReg\<rparr>;
          contextSym = contextSym\<lparr>symSize := Some 4\<rparr>;
          contextSym = contextSym\<lparr>isDefined := True\<rparr>;
          contextSym = contextSym\<lparr>isUserDeclared := True\<rparr>
      in storeSym seg vram' contextSym)"

definition fillHardwareRegsFrom :: "(int \<times> string) list \<Rightarrow> SymbolsSegment \<Rightarrow> bool \<Rightarrow> SymbolsSegment" where
  "fillHardwareRegsFrom table seg useRealNames = foldl (fillHardwareRegs_body useRealNames) seg table"

definition fillHardwareRegs :: "SymbolsSegment \<Rightarrow> bool \<Rightarrow> SymbolsSegment" where
  "fillHardwareRegs seg useRealNames = fillHardwareRegsFrom N64HardwareRegs seg useRealNames"

subsection \<open>Context\<close>

text \<open>
  Modelled from the spec: ContextRelocInfo and GlobalOffsetTable (ContextSymbols.py and
  GlobalOffsetTable.py are not among the sources); only the attributes the spec names.
\<close>

record ContextRelocInfo =
  referencedSectionVram :: "int option"
  relocName :: string

record GlobalOffsetTable =
  pltGot :: "int option"
  localsTable :: "int list"
  globalsTable :: "int list"

record Context =
  globalSegment :: SymbolsSegment
  unknownSegmentOfContext :: SymbolsSegment
  contextIsTheUnknownSegment :: bool
  overlaySegments :: "string \<rightharpoonup> (int \<rightharpoonup> SymbolsSegment)"
  totalVramStart :: int
  totalVramEnd :: int
  defaultVramRanges :: bool
  bannedSymbols :: "int set"
  relocInfosPerSection :: "FileSectionType \<rightharpoonup> (int \<rightharpoonup> ContextRelocInfo)"
  got :: GlobalOffsetTable

text \<open>The class attribute \<open>Context.N64DefaultBanned\<close>.\<close>

definition N64DefaultBanned :: "int set" where
  "N64DefaultBanned = {0x7FFFFFE0, 0x7FFFFFF0, 0x7FFFFFFF, 0x80000010, 0x80000020}"

text \<open>\<open>self.bannedSymbols |= self.N64DefaultBanned\<close>\<close>

definition fillDefaultBannedSymbols :: "Context \<Rightarrow> Context" where
  "fillDefaultBannedSymbols ctx = ctx\<lparr>bannedSymbols := bannedSymbols ctx \<union> N64DefaultBanned\<rparr>"

definition getRelocInfo :: "Context \<Rightarrow> int \<Rightarrow> FileSectionType \<Rightarrow> ContextRelocInfo option" where
  "getRelocInfo ctx vram' sectionType' =
     (case relocInfosPerSection ctx sectionType' of
        Some relocsInSection \<Rightarrow> relocsInSection vram'
      | None \<Rightarrow> None)"


subsection \<open>Sequences of segment operations\<close>

text \<open>
  The five symbol-creating operations of SymbolsSegment as data, so that "any subsequent
  operation" is a list of them applied in order.
\<close>

datatype SegmentOp =
    OpAddSymbol int FileSectionType bool "int option"
  | OpAddFunction int bool "int option"
  | OpAddBranchLabel int bool "int option"
  | OpAddJumpTable int bool "int option"
  | OpAddJumpTableLabel int bool "int option"

fun applyOp :: "SymbolsSegment \<Rightarrow> SegmentOp \<Rightarrow> SymbolsSegment" where
  "applyOp seg (OpAddSymbol a st ag vr) = fst (addSymbol seg a st ag vr)"
| "applyOp seg (OpAddFunction a ag vr) = fst (addFunction seg a ag vr)"
| "applyOp seg (OpAddBranchLabel a ag vr) = fst (addBranchLabel seg a ag vr)"
| "applyOp seg (OpAddJumpTable a ag vr) = fst (addJumpTable seg a ag vr)"
| "applyOp seg (OpAddJumpTableLabel a ag vr) = fst (addJumpTableLabel seg a ag vr)"

definition applyOps :: "SymbolsSegment \<Rightarrow> SegmentOp list \<Rightarrow> SymbolsSegment" where
  "applyOps seg ops = foldl applyOp seg ops"

fun opAddress :: "SegmentOp \<Rightarrow> int" where
  "opAddress (OpAddSymbol a st ag vr) = a"
| "opAddress (OpAddFunction a ag vr) = a"
| "opAddress (OpAddBranchLabel a ag vr) = a"
| "opAddress (OpAddJumpTable a ag vr) = a"
| "opAddress (OpAddJumpTableLabel a ag vr) = a"

text \<open>The operations that assign \<open>contextSym.sectionType = FileSectionType.Text\<close>
  after \<open>addSymbol\<close> has returned.\<close>

fun forcesText :: "SegmentOp \<Rightarrow> bool" where
  "forcesText (OpAddFunction a ag vr) = True"
| "forcesText (OpAddJumpTableLabel a ag vr) = True"
| "forcesText _ = False"

text \<open>An empty segment with the ranges \<open>Context.__init__\<close> gives the global segment.\<close>

definition emptySegment :: SymbolsSegment where
  "emptySegment =
     \<lparr> vromStart = Some 0, vromEnd = Some 0x1000, vramStart = 0x80000000, vramEnd = 0x80001000,
       segOverlayCategory = None, symbols = [], constants = [], newPointersInData = [],
       loPatches = [], dataSymbolsWithReferencesWithAddends = {},
       dataReferencingConstants = {}, isTheUnknownSegment = False \<rparr>"

definition sectionAt :: "SymbolsSegment \<Rightarrow> int \<Rightarrow> FileSectionType option" where
  "sectionAt seg address = map_option sectionType (sd_get (symbols seg) address)"

text \<open>A configuration and a one-symbol segment for the concrete instances below.\<close>

definition exampleConfig :: GlobalConfig where
  "exampleConfig =
     \<lparr> PRODUCE_SYMBOLS_PLUS_OFFSET = True, ASM_COMMENT = False, ASM_COMMENT_OFFSET_WIDTH = 6,
       ASM_DATA_SYM_AS_LABEL = False, ASM_REFERENCEE_SYMBOLS = False,
       AUTOGENERATED_NAMES_BASED_ON_DATA_TYPE = True, COMPILER = IDO, ENDIAN = BIG,
       LINE_ENDS = [CHR 0x0A] \<rparr>"

definition dataSymbolSegment :: SymbolsSegment where
  "dataSymbolSegment = fst (addSymbol emptySegment 0x80000100 Data False None)"


section \<open>Symbol emitters and the bss section\<close>

text \<open>
  A Python exception that leaves a modelled function is a value: \<open>Inl\<close> of the error.
  \<open>IndexError\<close> is a list read out of range; \<open>RuntimeError\<close> and
  \<open>UnicodeDecodeError\<close> are what string decoding raises; \<open>AttributeError\<close> is the
  read of an attribute the object does not have.
\<close>

datatype PyError = IndexError | RuntimeError | UnicodeDecodeError | AttributeError

text \<open>Sequencing of calls that may raise: the first exception ends the computation.\<close>

definition bindE :: "('e + 'a) \<Rightarrow> ('a \<Rightarrow> 'e + 'b) \<Rightarrow> 'e + 'b" where
  "bindE m f = (case m of Inl err \<Rightarrow> Inl err | Inr a \<Rightarrow> f a)"

text \<open>
  Modelled from the spec: the type predicates of ContextSymbol (ContextSymbols.py is not
  among the sources), read off the type tag.
\<close>

definition ContextSymbol_isByte :: "ContextSymbol \<Rightarrow> bool" where
  "ContextSymbol_isByte c = (symType c = Some Byte)"

definition ContextSymbol_isShort :: "ContextSymbol \<Rightarrow> bool" where
  "ContextSymbol_isShort c = (symType c = Some Short)"

definition ContextSymbol_isFloat :: "ContextSymbol \<Rightarrow> bool" where
  "ContextSymbol_isFloat c = (symType c = Some Float)"

definition ContextSymbol_isDouble :: "ContextSymbol \<Rightarrow> bool" where
  "ContextSymbol_isDouble c = (symType c = Some Double)"

definition ContextSymbol_isString :: "ContextSymbol \<Rightarrow> bool" where
  "ContextSymbol_isString c = (symType c = Some String)"


definition ContextSymbol_hasNoType :: "ContextSymbol \<Rightarrow> bool" where
  "ContextSymbol_hasNoType c = (symType c = None)"

text \<open>
  The attributes of a \<open>SymbolBase\<close> object. ElementBase.py is not among the sources; its
  constructor stores the arguments \<open>SymbolBase.__init__\<close> passes on. The element reaches
  the symbols through the SymbolsSegment that owns it (the model has that one segment:
  \<open>self.getSymbol\<close> and \<open>self.addSymbol\<close> are the segment's), \<open>getVramOffset(o)\<close> is
  \<open>vram + o\<close> and \<open>getVromOffset(o)\<close> is \<open>vromStart + o\<close>. \<open>self.contextSym\<close> is the
  symbol stored at the element's vram.
\<close>

record SymbolBase =
  emVromStart :: int
  emVromEnd :: int
  emInFileOffset :: int
  emVram :: int
  emWords :: "int list"
  emSectionType :: FileSectionType
  emSegmentVromStart :: int
  emOverlayCategory :: "string option"
  emCommentOffset :: int
  endOfLineComment :: "string list"
  stringEncoding :: string
  failedStringDecoding :: bool

record SymbolBss = SymbolBase +
  spaceSize :: int

definition getVramOffset :: "'a SymbolBase_scheme \<Rightarrow> int \<Rightarrow> int" where
  "getVramOffset e localOffset = emVram e + localOffset"

definition getVromOffset :: "'a SymbolBase_scheme \<Rightarrow> int \<Rightarrow> int" where
  "getVromOffset e localOffset = emVromStart e + localOffset"

text \<open>\<open>self.contextSym\<close>: created by \<open>__init__\<close>, so the lookup finds it; a fresh symbol
  stands for the lookup that cannot fail.\<close>

definition contextSymOf :: "SymbolsSegment \<Rightarrow> 'a SymbolBase_scheme \<Rightarrow> ContextSymbol" where
  "contextSymOf seg e =
     (case sd_get (symbols seg) (emVram e) of Some c \<Rightarrow> c | None \<Rightarrow> newContextSymbol (emVram e))"

text \<open>
  \<open>sizew\<close> is a property the subclasses override: the number of words for a symbol with
  bytes, \<open>spaceSize // 4\<close> for \<open>SymbolBss\<close>. The functions below that read
  \<open>self.sizew\<close> or call \<open>self.isJumpTable()\<close> take the value their caller's class gives.
\<close>

definition SymbolBase_sizew :: "'a SymbolBase_scheme \<Rightarrow> int" where
  "SymbolBase_sizew e = int (length (emWords e))"

definition SymbolBss_sizew :: "SymbolBss \<Rightarrow> int" where
  "SymbolBss_sizew e = spaceSize e div 4"

text \<open>\<open>self.words[index]\<close>: an IndexError out of range (indices here are never negative).\<close>

definition wordAt :: "int list \<Rightarrow> nat \<Rightarrow> PyError + int" where
  "wordAt ws index = (if index < length ws then Inr (ws ! index) else Inl IndexError)"

definition SymbolBase_init :: "SymbolsSegment \<Rightarrow> 'a SymbolBase_scheme \<Rightarrow> SymbolsSegment" where
  "SymbolBase_init seg e =
     (let (seg, contextSym) = addSymbol seg (emVram e) (emSectionType e) True None;
          contextSym = contextSym\<lparr>vromAddress := Some (emVromStart e)\<rparr>;
          contextSym = contextSym\<lparr>isDefined := True\<rparr>;
          contextSym = contextSym\<lparr>sectionType := emSectionType e\<rparr>
      in storeSym seg (emVram e) contextSym)"

definition isString :: "SymbolsSegment \<Rightarrow> 'a SymbolBase_scheme \<Rightarrow> bool" where
  "isString seg e = (ContextSymbol_isString (contextSymOf seg e) \<and> \<not> failedStringDecoding e)"

definition isByte :: "SymbolsSegment \<Rightarrow> 'a SymbolBase_scheme \<Rightarrow> nat \<Rightarrow> bool" where
  "isByte seg e index = (ContextSymbol_isByte (contextSymOf seg e) \<and> \<not> isString seg e)"

definition isShort :: "SymbolsSegment \<Rightarrow> 'a SymbolBase_scheme \<Rightarrow> nat \<Rightarrow> bool" where
  "isShort seg e index = ContextSymbol_isShort (contextSymOf seg e)"

definition isFloat :: "SymbolsSegment \<Rightarrow> 'a SymbolBase_scheme \<Rightarrow> nat \<Rightarrow> PyError + bool" where
  "isFloat seg e index =
     (if ContextSymbol_isFloat (contextSymOf seg e) then
        (case wordAt (emWords e) index of
           Inl err \<Rightarrow> Inl err
         | Inr word \<Rightarrow> if (word AND 0x7F800000) \<noteq> 0x7F800000 then Inr True else Inr False)
      else Inr False)"

definition isDouble ::
  "GlobalConfig \<Rightarrow> SymbolsSegment \<Rightarrow> 'a SymbolBase_scheme \<Rightarrow> int \<Rightarrow> nat \<Rightarrow> PyError + bool" where
  "isDouble cfg seg e sizew index =
     (if ContextSymbol_isDouble (contextSymOf seg e) then
        if int index + 1 < sizew then
          (case wordAt (emWords e) index of
             Inl err \<Rightarrow> Inl err
           | Inr word0 \<Rightarrow>
               (case wordAt (emWords e) (index + 1) of
                  Inl err \<Rightarrow> Inl err
                | Inr word1 \<Rightarrow>
                    if ((push_bit 32 word0 OR word1) AND 0x7FF0000000000000) \<noteq> 0x7FF0000000000000
                    then (let currentVram = getVramOffset e (int index * 4)
                          in if getSymbol cfg seg (currentVram + 4) False True = None
                             then Inr True else Inr False)
                    else Inr False))
        else Inr False
      else Inr False)"

text \<open>Python's \<open>f"{n:0{width}X}"\<close>: upper-case hexadecimal, zero-padded to \<open>width\<close>
  characters, the sign of a negative number counted in the width.\<close>

definition hexDigit :: "nat \<Rightarrow> char" where
  "hexDigit d = ''0123456789ABCDEF'' ! d"

function hexDigits :: "int \<Rightarrow> string" where
  "hexDigits n =
     (if n < 16 then [hexDigit (nat n)] else hexDigits (n div 16) @ [hexDigit (nat (n mod 16))])"
  by pat_completeness auto
termination
  by (relation "measure nat") auto

declare hexDigits.simps [simp del]

definition zeroPad :: "nat \<Rightarrow> string \<Rightarrow> string" where
  "zeroPad width str = replicate (width - length str) (CHR ''0'') @ str"

definition formatHex :: "nat \<Rightarrow> int \<Rightarrow> string" where
  "formatHex width n =
     (if n < 0 then CHR ''-'' # zeroPad (width - 1) (hexDigits (- n))
      else zeroPad width (hexDigits n))"

text \<open>\<open>renameBasedOnType\<close>; \<open>isJumpTable\<close> is the value of \<open>self.isJumpTable()\<close>.\<close>

definition renameBasedOnType ::
  "GlobalConfig \<Rightarrow> SymbolsSegment \<Rightarrow> 'a SymbolBase_scheme \<Rightarrow> int \<Rightarrow> bool \<Rightarrow> PyError + SymbolsSegment" where
  "renameBasedOnType cfg seg e sizew isJumpTable =
     (if \<not> AUTOGENERATED_NAMES_BASED_ON_DATA_TYPE cfg then Inr seg
      else if \<not> isAutogenerated (contextSymOf seg e) then Inr seg
      else if \<not> isJumpTable then
        (case isFloat seg e 0 of
           Inl err \<Rightarrow> Inl err
         | Inr True \<Rightarrow>
             Inr (storeSym seg (emVram e)
                    ((contextSymOf seg e)\<lparr>name := Some (''FLT_'' @ formatHex 8 (emVram e))\<rparr>))
         | Inr False \<Rightarrow>
             (case isDouble cfg seg e sizew 0 of
                Inl err \<Rightarrow> Inl err
              | Inr True \<Rightarrow>
                  Inr (storeSym seg (emVram e)
                         ((contextSymOf seg e)\<lparr>name := Some (''DBL_'' @ formatHex 8 (emVram e))\<rparr>))
              | Inr False \<Rightarrow>
                  if isString seg e
                  then Inr (storeSym seg (emVram e)
                              ((contextSymOf seg e)\<lparr>name := Some (''STR_'' @ formatHex 8 (emVram e))\<rparr>))
                  else Inr seg))
      else Inr seg)"

text \<open>
  \<open>SymbolBase.analyze\<close>. The inner loop visits the bytes \<open>j\<close> of word \<open>i\<close> at which a
  symbol may start and marks a symbol found there; with \<open>byteStep = 4\<close> the word itself is
  looked up and the referenced symbol records this one.
\<close>

definition analyzeMark :: "GlobalConfig \<Rightarrow> 'a SymbolBase_scheme \<Rightarrow> nat \<Rightarrow> SymbolsSegment \<Rightarrow> nat \<Rightarrow> SymbolsSegment" where
  "analyzeMark cfg e i seg j =
     (if i = 0 \<and> j = 0 then seg
      else (let localOffset = 4 * int i;
                currentVram = getVramOffset e (localOffset + int j)
            in case getSymbol cfg seg currentVram False True of
                 None \<Rightarrow> seg
               | Some contextSym \<Rightarrow>
                   (let contextSym = contextSym\<lparr>vromAddress := Some (getVromOffset e (localOffset + int j))\<rparr>;
                        contextSym = contextSym\<lparr>isDefined := True\<rparr>;
                        contextSym = contextSym\<lparr>sectionType := emSectionType e\<rparr>;
                        contextSym = (if ContextSymbol_hasNoType contextSym
                                      then contextSym\<lparr>symType := symType contextSym\<rparr> else contextSym)
                    in storeSym seg currentVram contextSym)))"

definition byteOffsets :: "nat \<Rightarrow> nat list" where
  "byteOffsets byteStep = (if byteStep = 1 then [0, 1, 2, 3] else if byteStep = 2 then [0, 2] else [0])"

definition analyzeWord ::
  "GlobalConfig \<Rightarrow> 'a SymbolBase_scheme \<Rightarrow> nat \<Rightarrow> (PyError + SymbolsSegment) \<Rightarrow> nat \<Rightarrow> PyError + SymbolsSegment" where
  "analyzeWord cfg e byteStep acc i =
     (case acc of
        Inl err \<Rightarrow> Inl err
      | Inr seg \<Rightarrow>
          (let seg = foldl (analyzeMark cfg e i) seg (byteOffsets byteStep)
           in if byteStep = 4 then
                (case wordAt (emWords e) i of
                   Inl err \<Rightarrow> Inl err
                 | Inr word \<Rightarrow>
                     (case getSymbol cfg seg word False True of
                        None \<Rightarrow> Inr seg
                      | Some referencedSym \<Rightarrow>
                          Inr (storeSym seg word
                                 (referencedSym\<lparr>referenceSymbols :=
                                    List.insert (emVram e) (referenceSymbols referencedSym)\<rparr>))))
              else Inr seg))"

definition SymbolBase_analyze ::
  "GlobalConfig \<Rightarrow> SymbolsSegment \<Rightarrow> 'a SymbolBase_scheme \<Rightarrow> int \<Rightarrow> bool \<Rightarrow> PyError + SymbolsSegment" where
  "SymbolBase_analyze cfg seg e sizew isJumpTable =
     (case renameBasedOnType cfg seg e sizew isJumpTable of
        Inl err \<Rightarrow> Inl err
      | Inr seg \<Rightarrow>
          (let byteStep = (if ContextSymbol_isByte (contextSymOf seg e) then 1
                           else if ContextSymbol_isShort (contextSymOf seg e) then 2 else 4)
           in if emSectionType e \<noteq> Bss
              then foldl (analyzeWord cfg e byteStep) (Inr seg) [0 ..< nat sizew]
              else Inr seg))"

text \<open>\<open>SymbolBss\<close> inherits \<open>analyze\<close> and \<open>isJumpTable\<close> (always false) from SymbolBase.\<close>

definition SymbolBss_analyze :: "GlobalConfig \<Rightarrow> SymbolsSegment \<Rightarrow> SymbolBss \<Rightarrow> PyError + SymbolsSegment" where
  "SymbolBss_analyze cfg seg e = SymbolBase_analyze cfg seg e (SymbolBss_sizew e) False"

subsection \<open>SectionBss\<close>

record SectionBss =
  secVromStart :: int
  secVromEnd :: int
  bssVramStart :: int
  bssVramEnd :: int
  bssTotalSize :: int
  secInFileOffset :: int
  secCommentOffset :: int
  secSegmentVromStart :: int
  secOverlayCategory :: "string option"
  symbolList :: "SymbolBss list"
  symbolsVRams :: "int set"

text \<open>
  Modelled from the spec: \<open>checkAndCreateFirstSymbol\<close> (SectionBase is not among the
  sources): "If no symbol exists at bssVramStart, create one (autogenerated, defined)".
\<close>

definition checkAndCreateFirstSymbol :: "GlobalConfig \<Rightarrow> SymbolsSegment \<Rightarrow> SectionBss \<Rightarrow> SymbolsSegment" where
  "checkAndCreateFirstSymbol cfg seg sec =
     (case getSymbol cfg seg (bssVramStart sec) False True of
        Some contextSym \<Rightarrow> seg
      | None \<Rightarrow>
          (let (seg, contextSym) = addSymbol seg (bssVramStart sec) Bss True None
           in storeSym seg (bssVramStart sec) (contextSym\<lparr>isDefined := True\<rparr>)))"

text \<open>The body of the loop over the pointers found in data.\<close>

definition bssPointerBody :: "GlobalConfig \<Rightarrow> SymbolsSegment \<Rightarrow> int \<Rightarrow> SymbolsSegment" where
  "bssPointerBody cfg seg ptr =
     (case getSymbol cfg seg ptr True True of
        None \<Rightarrow> fst (addSymbol seg ptr Bss True None)
      | Some contextSym \<Rightarrow> seg)"

text \<open>The body of the loop over \<open>getSymbolsRange\<close>: the section is marked and the offsets
  are collected (\<open>bssSymbolOffsets\<close> is a set; it is kept as a list and sorted without
  duplicates afterwards).\<close>

definition bssOffsetsBody ::
  "SectionBss \<Rightarrow> SymbolsSegment \<times> int list \<Rightarrow> int \<times> ContextSymbol \<Rightarrow> SymbolsSegment \<times> int list" where
  "bssOffsetsBody sec acc entry =
     (let seg = fst acc;
          bssSymbolOffsets = snd acc;
          symbolVram = fst entry;
          contextSym = snd entry;
          contextSym = contextSym\<lparr>sectionType := Bss\<rparr>;
          seg = storeSym seg symbolVram contextSym;
          bssSymbolOffsets = bssSymbolOffsets @ [symbolVram - bssVramStart sec];
          bssSymbolOffsets =
            (case symSize contextSym of
               Some size' \<Rightarrow> bssSymbolOffsets @ [symbolVram + size' - bssVramStart sec]
             | None \<Rightarrow> bssSymbolOffsets)
      in (seg, bssSymbolOffsets))"

text \<open>The space of the variable at index \<open>i\<close> of the sorted offsets.\<close>

definition bssSpace :: "SectionBss \<Rightarrow> int list \<Rightarrow> nat \<Rightarrow> int" where
  "bssSpace sec sortedOffsets i =
     (let symbolOffset = sortedOffsets ! i;
          space = bssTotalSize sec - symbolOffset
      in if i + 1 < length sortedOffsets then
           (let nextSymbolOffset = sortedOffsets ! (i + 1)
            in if nextSymbolOffset \<le> bssTotalSize sec then nextSymbolOffset - symbolOffset
               else space)
         else space)"

text \<open>The \<open>SymbolBss\<close> object iteration \<open>i\<close> constructs (\<open>setCommentOffset\<close> applied).\<close>

definition bssSymbolAt :: "SectionBss \<Rightarrow> int list \<Rightarrow> nat \<Rightarrow> SymbolBss" where
  "bssSymbolAt sec sortedOffsets i =
     (let symbolOffset = sortedOffsets ! i;
          symbolVram = bssVramStart sec + symbolOffset;
          space = bssSpace sec sortedOffsets i;
          vrom = secVromStart sec + symbolOffset;
          vromEnd' = vrom + space
      in \<lparr> emVromStart = vrom, emVromEnd = vromEnd', emInFileOffset = symbolOffset + secInFileOffset sec,
           emVram = symbolVram, emWords = [], emSectionType = Bss,
           emSegmentVromStart = secSegmentVromStart sec, emOverlayCategory = secOverlayCategory sec,
           emCommentOffset = secCommentOffset sec, endOfLineComment = [],
           stringEncoding = ''EUC-JP'', failedStringDecoding = False, spaceSize = space \<rparr>)"

definition bssLoopBody ::
  "GlobalConfig \<Rightarrow> int list \<Rightarrow> nat \<Rightarrow> SymbolsSegment \<Rightarrow> SectionBss \<Rightarrow> PyError + (SymbolsSegment \<times> SectionBss)" where
  "bssLoopBody cfg sortedOffsets i seg sec =
     (let sym = bssSymbolAt sec sortedOffsets i;
          seg = SymbolBase_init seg sym
      in case SymbolBss_analyze cfg seg sym of
           Inl err \<Rightarrow> Inl err
         | Inr seg \<Rightarrow>
             Inr (seg, sec\<lparr> symbolList := symbolList sec @ [sym],
                            symbolsVRams := insert (emVram sym) (symbolsVRams sec) \<rparr>))"

function bssLoop ::
  "GlobalConfig \<Rightarrow> int list \<Rightarrow> nat \<Rightarrow> SymbolsSegment \<Rightarrow> SectionBss \<Rightarrow> PyError + (SymbolsSegment \<times> SectionBss)" where
  "bssLoop cfg sortedOffsets i seg sec =
     (if i < length sortedOffsets then
        (case bssLoopBody cfg sortedOffsets i seg sec of
           Inl err \<Rightarrow> Inl err
         | Inr st \<Rightarrow> bssLoop cfg sortedOffsets (i + 1) (fst st) (snd st))
      else Inr (seg, sec))"
  by pat_completeness auto
termination
  by (relation "measure (\<lambda>(cfg, sortedOffsets, i, seg, sec). length sortedOffsets - i)") auto

declare bssLoop.simps [simp del]

text \<open>
  The read \<open>self.context.offsetSymbols\<close> of \<open>SectionBss.analyze\<close> (line 48).
  \<open>Context.__init__\<close> assigns \<open>globalSegment\<close>, \<open>unknownSegment\<close>,
  \<open>_isTheUnknownSegment\<close>, \<open>overlaySegments\<close>, \<open>totalVramStart\<close>, \<open>totalVramEnd\<close>,
  \<open>_defaultVramRanges\<close>, \<open>bannedSymbols\<close>, \<open>relocInfosPerSection\<close> and \<open>got\<close>, the
  fields of the record above. Context.py defines no attribute \<open>offsetSymbols\<close>, neither in
  \<open>__init__\<close> nor in the body of the class, and no \<open>__getattr__\<close>; nothing else among the
  sources assigns it. The attribute read therefore raises \<open>AttributeError\<close> for every
  Context. The value it would give is a table from section types to dictionaries keyed by offset.
\<close>

definition Context_offsetSymbols ::
  "Context \<Rightarrow> PyError + (FileSectionType \<Rightarrow> (int \<times> ContextSymbol) list)" where
  "Context_offsetSymbols ctx = Inl AttributeError"

text \<open>Lines 49 to 60: the offsets start from the keys of the table read and the loop over
  \<open>getSymbolsRange\<close> adds to them.\<close>

definition bssCollect ::
  "SectionBss \<Rightarrow> SymbolsSegment \<Rightarrow> (int \<times> ContextSymbol) list \<Rightarrow> SymbolsSegment \<times> int list" where
  "bssCollect sec seg offsetSymbolsInSection =
     foldl (bssOffsetsBody sec) (seg, map fst offsetSymbolsInSection)
       (getSymbolsRange seg (bssVramStart sec) (bssVramEnd sec))"

text \<open>
  \<open>SectionBss.analyze\<close>. The symbols of the section are those of the global segment of
  the context. The first symbol is created and the pointers found in data are turned into
  symbols; then \<open>self.context.offsetSymbols\<close> is read, and what follows runs only if that
  read returns.
\<close>

definition SectionBss_analyze ::
  "GlobalConfig \<Rightarrow> Context \<Rightarrow> SectionBss \<Rightarrow> PyError + (SymbolsSegment \<times> SectionBss)" where
  "SectionBss_analyze cfg ctx sec =
     (let seg = checkAndCreateFirstSymbol cfg (globalSegment ctx) sec;
          (ptrs, seg) = getAndPopPointerInDataReferencesRange seg (bssVramStart sec) (bssVramEnd sec);
          seg = foldl (bssPointerBody cfg) seg ptrs
      in bindE (Context_offsetSymbols (ctx\<lparr>globalSegment := seg\<rparr>)) (\<lambda>offsetSymbols.
           (let offsetSymbolsInSection = offsetSymbols Bss;
                (seg, bssSymbolOffsets) = bssCollect sec seg offsetSymbolsInSection;
                sortedOffsets = sort (remdups bssSymbolOffsets)
            in bssLoop cfg sortedOffsets 0 seg sec)))"

text \<open>\<open>SectionBss.__init__\<close> for a section with no symbols yet.\<close>

definition newSectionBss :: "int \<Rightarrow> int \<Rightarrow> int \<Rightarrow> int \<Rightarrow> SectionBss" where
  "newSectionBss vromStart' vromEnd' bssVramStart' bssVramEnd' =
     \<lparr> secVromStart = vromStart', secVromEnd = vromEnd', bssVramStart = bssVramStart',
       bssVramEnd = bssVramEnd', bssTotalSize = bssVramEnd' - bssVramStart',
       secInFileOffset = 0, secCommentOffset = 0, secSegmentVromStart = 0,
       secOverlayCategory = None, symbolList = [], symbolsVRams = {} \<rparr>"

subsection \<open>Disassembly of a symbol\<close>

text \<open>
  The helpers of ContextSymbol, ElementBase, ContextRelocInfo and Utils that the emitters
  call and that are not among the sources, as parameters: names and labels of a symbol,
  the printed value of a float and a double word (\<open>f"{wordToFloat(w):.10g}"\<close>,
  \<open>f"{qwordToDouble(d):.18g}"\<close>), the byte view of the words and the string decoder.
  \<open>decodeString\<close> returns the decoded pieces and the raw size, or raises.
\<close>

record Externals =
  getName :: "ContextSymbol \<Rightarrow> string"
  getSymbolLabel :: "ContextSymbol \<Rightarrow> string"
  getSymbolPlusOffset :: "ContextSymbol \<Rightarrow> int \<Rightarrow> string"
  getLabelFromSymbol :: "ContextSymbol \<Rightarrow> string"
  getNamePlusOffset :: "ContextRelocInfo \<Rightarrow> int \<Rightarrow> string"
  getSpimdisasmVersionString :: string
  wordToFloatText :: "int \<Rightarrow> string"
  qwordToDoubleText :: "int \<Rightarrow> string"
  wordToCurrenEndian :: "int \<Rightarrow> int"
  wordsToBytes :: "int list \<Rightarrow> int list"
  decodeString :: "int list \<Rightarrow> nat \<Rightarrow> string \<Rightarrow> PyError + (string list \<times> nat)"

text \<open>A reference to a ContextSymbol held in a reference set: the symbol at that address.\<close>

definition derefSym :: "SymbolsSegment \<Rightarrow> int \<Rightarrow> ContextSymbol" where
  "derefSym seg address =
     (case sd_get (symbols seg) address of Some c \<Rightarrow> c | None \<Rightarrow> newContextSymbol address)"

definition getConstant :: "SymbolsSegment \<Rightarrow> int \<Rightarrow> ContextSymbol option" where
  "getConstant seg constantValue = map_of (constants seg) constantValue"

text \<open>
  \<open>canUseAddendsOnData\<close> and \<open>canUseConstantsOnData\<close> (ElementBase): whether the symbol's
  address is in the segment's set of "data symbols which are allowed to have references to
  other symbols with addends", respectively "to reference named constants".
\<close>

definition canUseAddendsOnData :: "SymbolsSegment \<Rightarrow> 'a SymbolBase_scheme \<Rightarrow> bool" where
  "canUseAddendsOnData seg e = (emVram e \<in> dataSymbolsWithReferencesWithAddends seg)"

definition canUseConstantsOnData :: "SymbolsSegment \<Rightarrow> 'a SymbolBase_scheme \<Rightarrow> bool" where
  "canUseConstantsOnData seg e = (emVram e \<in> dataReferencingConstants seg)"

definition generateAsmLineComment ::
  "Externals \<Rightarrow> GlobalConfig \<Rightarrow> 'a SymbolBase_scheme \<Rightarrow> int \<Rightarrow> int option \<Rightarrow> string" where
  "generateAsmLineComment ext cfg e localOffset wordValue =
     (if \<not> ASM_COMMENT cfg then ''''
      else (let offsetHex = formatHex (ASM_COMMENT_OFFSET_WIDTH cfg)
                              (localOffset + emInFileOffset e + emCommentOffset e);
                currentVram = getVramOffset e localOffset;
                vramHex = formatHex 8 currentVram;
                wordValueHex = (case wordValue of
                                  None \<Rightarrow> ''''
                                | Some w \<Rightarrow> formatHex 8 (wordToCurrenEndian ext w) @ '' '')
            in ''/* '' @ offsetHex @ '' '' @ vramHex @ '' '' @ wordValueHex @ ''*/''))"

definition getExtraLabelFromSymbol :: "Externals \<Rightarrow> GlobalConfig \<Rightarrow> ContextSymbol option \<Rightarrow> string" where
  "getExtraLabelFromSymbol ext cfg contextSym =
     (case contextSym of
        None \<Rightarrow> ''''
      | Some c \<Rightarrow>
          (let label = LINE_ENDS cfg;
               symLabel = getSymbolLabel ext c
           in if symLabel \<noteq> '''' then
                (let label = label @ symLabel @ LINE_ENDS cfg
                 in if ASM_DATA_SYM_AS_LABEL cfg then label @ getName ext c @ '':'' @ LINE_ENDS cfg
                    else label)
              else label))"

definition getJByteAsByte ::
  "Externals \<Rightarrow> GlobalConfig \<Rightarrow> 'a SymbolBase_scheme \<Rightarrow> nat \<Rightarrow> nat \<Rightarrow> PyError + string" where
  "getJByteAsByte ext cfg e i j =
     bindE (wordAt (emWords e) i) (\<lambda>w.
       let localOffset = 4 * int i;
           dotType = ''.byte'';
           shiftValue = j * 8;
           shiftValue = (if ENDIAN cfg = BIG then 24 - shiftValue else shiftValue);
           subVal = drop_bit shiftValue (w AND push_bit shiftValue 0xFF);
           val = ''0x'' @ formatHex 2 subVal;
           comment = generateAsmLineComment ext cfg e (localOffset + int j) None
       in Inr (comment @ '' '' @ dotType @ '' '' @ val))"

definition getJByteAsShort ::
  "Externals \<Rightarrow> GlobalConfig \<Rightarrow> 'a SymbolBase_scheme \<Rightarrow> nat \<Rightarrow> nat \<Rightarrow> PyError + string" where
  "getJByteAsShort ext cfg e i j =
     bindE (wordAt (emWords e) i) (\<lambda>w.
       let localOffset = 4 * int i;
           dotType = ''.short'';
           shiftValue = j * 8;
           shiftValue = (if ENDIAN cfg = BIG then 16 - shiftValue else shiftValue);
           subVal = drop_bit shiftValue (w AND push_bit shiftValue 0xFFFF);
           val = ''0x'' @ formatHex 4 subVal;
           comment = generateAsmLineComment ext cfg e (localOffset + int j) None
       in Inr (comment @ '' '' @ dotType @ '' '' @ val))"

definition getNthWordAsBytesAndShorts ::
  "Externals \<Rightarrow> GlobalConfig \<Rightarrow> SymbolsSegment \<Rightarrow> 'a SymbolBase_scheme \<Rightarrow> nat \<Rightarrow>
   ContextSymbol option \<Rightarrow> ContextSymbol option \<Rightarrow> ContextSymbol option \<Rightarrow> PyError + (string \<times> nat)" where
  "getNthWordAsBytesAndShorts ext cfg seg e i sym1 sym2 sym3 =
     bindE
       (if sym1 \<noteq> None \<or> isByte seg e i \<or> (\<not> isShort seg e i \<and> sym3 \<noteq> None) then
          bindE (getJByteAsByte ext cfg e i 0) (\<lambda>b0.
          bindE (getJByteAsByte ext cfg e i 1) (\<lambda>b1.
            Inr (b0 @ LINE_ENDS cfg @ getExtraLabelFromSymbol ext cfg sym1 @ b1 @ LINE_ENDS cfg)))
        else
          bindE (getJByteAsShort ext cfg e i 0) (\<lambda>s0. Inr (s0 @ LINE_ENDS cfg)))
       (\<lambda>output.
          let output = output @ getExtraLabelFromSymbol ext cfg sym2
          in if sym3 \<noteq> None
                \<or> (case sym2 of None \<Rightarrow> False | Some c2 \<Rightarrow> ContextSymbol_isByte c2)
                \<or> (isByte seg e i \<and> (case sym2 of None \<Rightarrow> True | Some c2 \<Rightarrow> \<not> ContextSymbol_isShort c2))
             then
               bindE (getJByteAsByte ext cfg e i 2) (\<lambda>b2.
               bindE (getJByteAsByte ext cfg e i 3) (\<lambda>b3.
                 Inr (output @ b2 @ LINE_ENDS cfg @ getExtraLabelFromSymbol ext cfg sym3
                        @ b3 @ LINE_ENDS cfg, 0)))
             else
               bindE (getJByteAsShort ext cfg e i 2) (\<lambda>s2. Inr (output @ s2 @ LINE_ENDS cfg, 0)))"

text \<open>The text \<open>endOfLineComment[i]\<close> when \<open>i < len(self.endOfLineComment)\<close>.\<close>

definition eolComment :: "'a SymbolBase_scheme \<Rightarrow> nat \<Rightarrow> string" where
  "eolComment e i = (if i < length (endOfLineComment e) then endOfLineComment e ! i else '''')"

text \<open>The value \<open>getNthWordAsWords\<close> prints for the word \<open>w\<close>: the raw word unless a
  relocation, a referenced symbol or a named constant gives a name.\<close>

definition wordValueText ::
  "Externals \<Rightarrow> GlobalConfig \<Rightarrow> Context \<Rightarrow> 'a SymbolBase_scheme \<Rightarrow> int \<Rightarrow> int \<Rightarrow> bool \<Rightarrow> bool \<Rightarrow> string" where
  "wordValueText ext cfg ctx e localOffset w canReferenceSymbolsWithAddends canReferenceConstants =
     (let seg = globalSegment ctx;
          val = ''0x'' @ formatHex 8 w
      in case getRelocInfo ctx (emVram e + localOffset) (emSectionType e) of
           Some relocInfo \<Rightarrow>
             (case referencedSectionVram relocInfo of
                Some sectionVram \<Rightarrow>
                  (let relocVram = sectionVram + w
                   in case getSymbol cfg seg relocVram True False of
                        Some contextSym \<Rightarrow> getSymbolPlusOffset ext contextSym relocVram
                      | None \<Rightarrow> val)
              | None \<Rightarrow> getNamePlusOffset ext relocInfo w)
         | None \<Rightarrow>
             (case getSymbol cfg seg w canReferenceSymbolsWithAddends True of
                Some symbolRef \<Rightarrow>
                  if symType symbolRef \<noteq> Some Function \<or> w = vram symbolRef then
                    (if \<not> isElfNotype symbolRef then getSymbolPlusOffset ext symbolRef w else val)
                  else val
              | None \<Rightarrow>
                  if canReferenceConstants then
                    (case getConstant seg w of
                       Some constant \<Rightarrow> getName ext constant
                     | None \<Rightarrow> val)
                  else val))"

definition getNthWordAsWords ::
  "Externals \<Rightarrow> GlobalConfig \<Rightarrow> Context \<Rightarrow> 'a SymbolBase_scheme \<Rightarrow> nat \<Rightarrow> bool \<Rightarrow> bool \<Rightarrow> PyError + (string \<times> nat)" where
  "getNthWordAsWords ext cfg ctx e i canReferenceSymbolsWithAddends canReferenceConstants =
     (let localOffset = 4 * int i;
          vram' = getVramOffset e localOffset
      in bindE (wordAt (emWords e) i) (\<lambda>w.
           let dotType = ''.word'';
               label = (if i \<noteq> 0
                        then getExtraLabelFromSymbol ext cfg (getSymbol cfg (globalSegment ctx) vram' False True)
                        else '''');
               val = wordValueText ext cfg ctx e localOffset w
                       canReferenceSymbolsWithAddends canReferenceConstants;
               comment = generateAsmLineComment ext cfg e localOffset None
           in Inr (label @ comment @ '' '' @ dotType @ '' '' @ val @ eolComment e i @ LINE_ENDS cfg, 0)))"

definition getNthWordAsFloat ::
  "Externals \<Rightarrow> GlobalConfig \<Rightarrow> Context \<Rightarrow> 'a SymbolBase_scheme \<Rightarrow> nat \<Rightarrow> PyError + (string \<times> nat)" where
  "getNthWordAsFloat ext cfg ctx e i =
     (let localOffset = 4 * int i;
          vram' = getVramOffset e localOffset
      in bindE (wordAt (emWords e) i) (\<lambda>w.
           let label = (if i \<noteq> 0
                        then getExtraLabelFromSymbol ext cfg (getSymbol cfg (globalSegment ctx) vram' False True)
                        else '''');
               dotType = ''.float'';
               val = wordToFloatText ext w;
               comment = generateAsmLineComment ext cfg e localOffset (Some w)
           in Inr (label @ comment @ '' '' @ dotType @ '' '' @ val @ eolComment e i @ LINE_ENDS cfg, 0)))"

definition getNthWordAsDouble ::
  "Externals \<Rightarrow> GlobalConfig \<Rightarrow> Context \<Rightarrow> 'a SymbolBase_scheme \<Rightarrow> nat \<Rightarrow> PyError + (string \<times> nat)" where
  "getNthWordAsDouble ext cfg ctx e i =
     (let localOffset = 4 * int i;
          vram' = getVramOffset e localOffset
      in bindE (wordAt (emWords e) i) (\<lambda>w.
           let label = (if i \<noteq> 0
                        then getExtraLabelFromSymbol ext cfg (getSymbol cfg (globalSegment ctx) vram' False True)
                        else '''');
               dotType = ''.double''
           in bindE (wordAt (emWords e) (i + 1)) (\<lambda>otherHalf.
                let doubleWord = push_bit 32 w OR otherHalf;
                    val = qwordToDoubleText ext doubleWord;
                    comment = generateAsmLineComment ext cfg e localOffset (Some doubleWord)
                in Inr (label @ comment @ '' '' @ dotType @ '' '' @ val @ eolComment e i @ LINE_ENDS cfg, 1))))"

definition commentPadding :: "GlobalConfig \<Rightarrow> string" where
  "commentPadding cfg = replicate (if \<not> ASM_COMMENT cfg then 1 else 22) (CHR '' '')"

text \<open>The \<open>.ascii\<close> lines of all decoded pieces but the last, each followed by the line
  end and the padding.\<close>

definition asciiLines :: "GlobalConfig \<Rightarrow> string list \<Rightarrow> string" where
  "asciiLines cfg decodedStrings =
     concat (map (\<lambda>decodedValue. ''.ascii '' @ [CHR 0x22] @ decodedValue @ [CHR 0x22]
                                   @ LINE_ENDS cfg @ commentPadding cfg)
                 (butlast decodedStrings))"

text \<open>
  \<open>buffer = bytearray(4*len(self.words))\<close> as \<open>Utils.wordsToBytes\<close> fills it: it has
  \<open>4*len(self.words)\<close> bytes whatever the byte view gives, zero where nothing was written.
\<close>

definition byteBuffer :: "Externals \<Rightarrow> int list \<Rightarrow> int list" where
  "byteBuffer ext ws = take (4 * length ws) (wordsToBytes ext ws @ replicate (4 * length ws) 0)"

text \<open>
  \<open>getNthWordAsString\<close>. The bytes from the end of the string to the next word boundary
  must be zero, or \<open>RuntimeError\<close> is raised; \<open>checkStartOffset & ~3\<close> clears the two low
  bits. \<open>decodedStrings[-1]\<close> of an empty list is an \<open>IndexError\<close>.
\<close>

definition getNthWordAsString ::
  "Externals \<Rightarrow> GlobalConfig \<Rightarrow> 'a SymbolBase_scheme \<Rightarrow> nat \<Rightarrow> PyError + (string \<times> nat)" where
  "getNthWordAsString ext cfg e i =
     (let localOffset = 4 * i;
          buffer = byteBuffer ext (emWords e)
      in bindE (decodeString ext buffer localOffset (stringEncoding e)) (\<lambda>decoded.
           let decodedStrings = fst decoded;
               rawStringSize = snd decoded;
               checkStartOffset = localOffset + rawStringSize;
               checkEndOffset = min ((checkStartOffset - checkStartOffset mod 4) + 4) (length buffer)
           in if list_ex (\<lambda>k. buffer ! k \<noteq> 0) [checkStartOffset ..< checkEndOffset]
              then Inl RuntimeError
              else (let skip = rawStringSize div 4;
                        comment = generateAsmLineComment ext cfg e (int localOffset) None;
                        result = comment @ '' '';
                        decodedStrings = (if rawStringSize = 0 then decodedStrings @ [''''] else decodedStrings)
                    in if decodedStrings = [] then Inl IndexError
                       else Inr (result @ asciiLines cfg decodedStrings
                                   @ ''.asciz '' @ [CHR 0x22] @ last decodedStrings @ [CHR 0x22]
                                   @ LINE_ENDS cfg, skip))))"

text \<open>
  \<open>SymbolBase.getNthWord\<close>. The functions of this section are those of an object whose
  methods are the ones \<open>SymbolBase\<close> defines. \<open>SymbolRodata\<close> overrides
  \<open>getNthWord\<close>; its body calls \<open>self.context.getOffsetGenericSymbol\<close> and reads
  \<open>self.context.relocSymbols\<close>, neither of which Context.py defines, and is not part of
  this model.
\<close>

definition getNthWord ::
  "Externals \<Rightarrow> GlobalConfig \<Rightarrow> Context \<Rightarrow> 'a SymbolBase_scheme \<Rightarrow> nat \<Rightarrow> bool \<Rightarrow> bool \<Rightarrow> PyError + (string \<times> nat)" where
  "getNthWord ext cfg ctx e i canReferenceSymbolsWithAddends canReferenceConstants =
     getNthWordAsWords ext cfg ctx e i canReferenceSymbolsWithAddends canReferenceConstants"

definition getPrevAlignDirective ::
  "GlobalConfig \<Rightarrow> SymbolsSegment \<Rightarrow> 'a SymbolBase_scheme \<Rightarrow> int \<Rightarrow> nat \<Rightarrow> PyError + string" where
  "getPrevAlignDirective cfg seg e sizew i =
     bindE (isDouble cfg seg e sizew i) (\<lambda>d.
       if d \<and> (COMPILER cfg = SN64 \<or> COMPILER cfg = PSYQ)
       then Inr (commentPadding cfg @ ''.align 3'' @ LINE_ENDS cfg)
       else Inr '''')"

definition getPostAlignDirective :: "GlobalConfig \<Rightarrow> SymbolsSegment \<Rightarrow> 'a SymbolBase_scheme \<Rightarrow> nat \<Rightarrow> string" where
  "getPostAlignDirective cfg seg e i =
     (if isString seg e then
        commentPadding cfg
        @ (if COMPILER cfg = SN64 \<or> COMPILER cfg = PSYQ then ''.align 2'' else ''.balign 4'')
        @ LINE_ENDS cfg
      else '''')"

definition referenceNames :: "Externals \<Rightarrow> SymbolsSegment \<Rightarrow> int list \<Rightarrow> string" where
  "referenceNames ext seg refs = concat (map (\<lambda>a. '' '' @ getName ext (derefSym seg a)) refs)"

definition getReferenceeSymbols :: "Externals \<Rightarrow> GlobalConfig \<Rightarrow> SymbolsSegment \<Rightarrow> 'a SymbolBase_scheme \<Rightarrow> string" where
  "getReferenceeSymbols ext cfg seg e =
     (if \<not> ASM_COMMENT cfg \<or> \<not> ASM_REFERENCEE_SYMBOLS cfg then ''''
      else if referenceFunctions (contextSymOf seg e) \<noteq> [] then
        ''# Functions referencing this symbol:''
        @ referenceNames ext seg (referenceFunctions (contextSymOf seg e)) @ LINE_ENDS cfg
      else if referenceSymbols (contextSymOf seg e) \<noteq> [] then
        ''# Symbols referencing this symbol:''
        @ referenceNames ext seg (referenceSymbols (contextSymOf seg e)) @ LINE_ENDS cfg
      else '''')"

text \<open>
  The \<open>try\<close> of \<open>disassembleAsData\<close>: \<open>UnicodeDecodeError\<close> and \<open>RuntimeError\<close> from
  \<open>getNthWordAsString\<close> are caught, \<open>_failedStringDecoding\<close> is set and \<open>getNthWord\<close>
  renders the word; any other exception leaves the function.
\<close>

definition stringOrWord ::
  "Externals \<Rightarrow> GlobalConfig \<Rightarrow> Context \<Rightarrow> 'a SymbolBase_scheme \<Rightarrow> nat \<Rightarrow> bool \<Rightarrow> bool \<Rightarrow>
   PyError + ((string \<times> nat) \<times> 'a SymbolBase_scheme)" where
  "stringOrWord ext cfg ctx e i canReferenceSymbolsWithAddends canReferenceConstants =
     (case getNthWordAsString ext cfg e i of
        Inr r \<Rightarrow> Inr (r, e)
      | Inl err \<Rightarrow>
          if err = UnicodeDecodeError \<or> err = RuntimeError then
            (let e = e\<lparr>failedStringDecoding := True\<rparr>
             in bindE (getNthWord ext cfg ctx e i canReferenceSymbolsWithAddends canReferenceConstants)
                  (\<lambda>r. Inr (r, e)))
          else Inl err)"

text \<open>
  The choice of the rendering of word \<open>i\<close> in the loop of \<open>disassembleAsData\<close>: the pair
  \<open>(data, skip)\<close> and the emitter with its \<open>_failedStringDecoding\<close> flag.
\<close>

definition dataWord ::
  "Externals \<Rightarrow> GlobalConfig \<Rightarrow> Context \<Rightarrow> 'a SymbolBase_scheme \<Rightarrow> nat \<Rightarrow> bool \<Rightarrow> bool \<Rightarrow>
   PyError + ((string \<times> nat) \<times> 'a SymbolBase_scheme)" where
  "dataWord ext cfg ctx e i canReferenceSymbolsWithAddends canReferenceConstants =
     (let seg = globalSegment ctx;
          vram' = getVramOffset e (int i * 4);
          sym1 = getSymbol cfg seg (vram' + 1) False True;
          sym2 = getSymbol cfg seg (vram' + 2) False True;
          sym3 = getSymbol cfg seg (vram' + 3) False True
      in if sym1 \<noteq> None \<or> sym2 \<noteq> None \<or> sym3 \<noteq> None \<or> isByte seg e i \<or> isShort seg e i then
           bindE (getNthWordAsBytesAndShorts ext cfg seg e i sym1 sym2 sym3) (\<lambda>r. Inr (r, e))
         else
           bindE (isFloat seg e i) (\<lambda>f.
             if f then bindE (getNthWordAsFloat ext cfg ctx e i) (\<lambda>r. Inr (r, e))
             else
               bindE (isDouble cfg seg e (SymbolBase_sizew e) i) (\<lambda>d.
                 if d then bindE (getNthWordAsDouble ext cfg ctx e i) (\<lambda>r. Inr (r, e))
                 else if isString seg e then
                   stringOrWord ext cfg ctx e i canReferenceSymbolsWithAddends canReferenceConstants
                 else
                   bindE (getNthWord ext cfg ctx e i canReferenceSymbolsWithAddends
                            canReferenceConstants) (\<lambda>r. Inr (r, e)))))"

text \<open>One iteration of the loop: the text appended to \<open>output\<close>, the skip and the emitter.
  The only attribute of the object an iteration assigns is \<open>_failedStringDecoding\<close>; the
  loop below carries that flag from one iteration to the next.\<close>

definition dataStep ::
  "Externals \<Rightarrow> GlobalConfig \<Rightarrow> Context \<Rightarrow> 'a SymbolBase_scheme \<Rightarrow> nat \<Rightarrow> bool \<Rightarrow> bool \<Rightarrow>
   PyError + (string \<times> nat \<times> 'a SymbolBase_scheme)" where
  "dataStep ext cfg ctx e i canReferenceSymbolsWithAddends canReferenceConstants =
     bindE (dataWord ext cfg ctx e i canReferenceSymbolsWithAddends canReferenceConstants) (\<lambda>r.
       let dat = fst (fst r);
           skip = snd (fst r);
           e = snd r;
           seg = globalSegment ctx
       in bindE (if i \<noteq> 0 then getPrevAlignDirective cfg seg e (SymbolBase_sizew e) i else Inr '''')
            (\<lambda>prevAlign. Inr (prevAlign @ dat @ getPostAlignDirective cfg seg e i, skip, e)))"

function dataLoop ::
  "Externals \<Rightarrow> GlobalConfig \<Rightarrow> Context \<Rightarrow> bool \<Rightarrow> bool \<Rightarrow> nat \<Rightarrow> 'a SymbolBase_scheme \<Rightarrow> string \<Rightarrow>
   PyError + (string \<times> 'a SymbolBase_scheme)" where
  "dataLoop ext cfg ctx canReferenceSymbolsWithAddends canReferenceConstants i e output =
     (if int i < SymbolBase_sizew e then
        (case dataStep ext cfg ctx e i canReferenceSymbolsWithAddends canReferenceConstants of
           Inl err \<Rightarrow> Inl err
         | Inr st \<Rightarrow>
             dataLoop ext cfg ctx canReferenceSymbolsWithAddends canReferenceConstants
               (i + fst (snd st) + 1)
               (e\<lparr>failedStringDecoding := failedStringDecoding (snd (snd st))\<rparr>)
               (output @ fst st))
      else Inr (output, e))"
  by pat_completeness auto
termination
  by (relation "measure (\<lambda>(ext, cfg, ctx, ca, cc, i, e, output). length (emWords e) - i)")
     (auto simp: SymbolBase_sizew_def)

declare dataLoop.simps [simp del]

definition disassembleAsData ::
  "Externals \<Rightarrow> GlobalConfig \<Rightarrow> Context \<Rightarrow> 'a SymbolBase_scheme \<Rightarrow> bool \<Rightarrow> PyError + (string \<times> 'a SymbolBase_scheme)" where
  "disassembleAsData ext cfg ctx e useGlobalLabel =
     (let seg = globalSegment ctx;
          output = getReferenceeSymbols ext cfg seg e
      in bindE
           (if useGlobalLabel then
              bindE (getPrevAlignDirective cfg seg e (SymbolBase_sizew e) 0) (\<lambda>prevAlign.
                let output = output @ prevAlign;
                    output = output @ getLabelFromSymbol ext (contextSymOf seg e)
                in if ASM_DATA_SYM_AS_LABEL cfg
                   then Inr (output @ getName ext (contextSymOf seg e) @ '':'' @ LINE_ENDS cfg)
                   else Inr output)
            else Inr (output @ getName ext (contextSymOf seg e) @ '':'' @ LINE_ENDS cfg))
           (\<lambda>output.
              let canReferenceSymbolsWithAddends = canUseAddendsOnData seg e;
                  canReferenceConstants = canUseConstantsOnData seg e
              in dataLoop ext cfg ctx canReferenceSymbolsWithAddends canReferenceConstants 0 e output))"

text \<open>\<open>SymbolBase.disassemble\<close>: the version string is appended to \<open>output\<close>, and then
  \<open>output\<close> is assigned the result of \<open>disassembleAsData\<close>.\<close>

definition disassemble ::
  "Externals \<Rightarrow> GlobalConfig \<Rightarrow> Context \<Rightarrow> 'a SymbolBase_scheme \<Rightarrow> bool \<Rightarrow> bool \<Rightarrow> PyError + (string \<times> 'a SymbolBase_scheme)" where
  "disassemble ext cfg ctx e migrate useGlobalLabel =
     (let output = '''';
          output = (if migrate then output @ getSpimdisasmVersionString ext else output)
      in bindE (disassembleAsData ext cfg ctx e useGlobalLabel) (\<lambda>r.
           let output = fst r in Inr (output, snd r)))"

definition disassembleAsBss :: "Externals \<Rightarrow> GlobalConfig \<Rightarrow> Context \<Rightarrow> SymbolBss \<Rightarrow> string" where
  "disassembleAsBss ext cfg ctx e =
     (let seg = globalSegment ctx;
          output = getReferenceeSymbols ext cfg seg e;
          output = output @ getLabelFromSymbol ext (contextSymOf seg e);
          output = (if ASM_DATA_SYM_AS_LABEL cfg
                    then output @ getName ext (contextSymOf seg e) @ '':'' @ LINE_ENDS cfg
                    else output);
          output = output @ generateAsmLineComment ext cfg e 0 None;
          output = output @ '' .space 0x'' @ formatHex 2 (spaceSize e) @ LINE_ENDS cfg
      in output)"

definition SymbolBss_disassemble ::
  "Externals \<Rightarrow> GlobalConfig \<Rightarrow> Context \<Rightarrow> SymbolBss \<Rightarrow> bool \<Rightarrow> bool \<Rightarrow> string" where
  "SymbolBss_disassemble ext cfg ctx e migrate useGlobalLabel =
     (let output = '''';
          output = (if migrate then output @ getSpimdisasmVersionString ext else output);
          output = disassembleAsBss ext cfg ctx e
      in output)"


subsection \<open>Concrete inputs\<close>

text \<open>\<open>Context.__init__\<close>: the context with no symbols.\<close>

definition newContext :: Context where
  "newContext =
     \<lparr> globalSegment = emptySegment,
       unknownSegmentOfContext =
         \<lparr> vromStart = None, vromEnd = None, vramStart = 0x00000000, vramEnd = 0xFFFFFFFF,
           segOverlayCategory = None, symbols = [], constants = [], newPointersInData = [],
           loPatches = [], dataSymbolsWithReferencesWithAddends = {},
           dataReferencingConstants = {}, isTheUnknownSegment = False \<rparr>,
       contextIsTheUnknownSegment = True,
       overlaySegments = Map.empty,
       totalVramStart = vramStart emptySegment,
       totalVramEnd = vramEnd emptySegment,
       defaultVramRanges = True,
       bannedSymbols = {},
       relocInfosPerSection = [Text \<mapsto> Map.empty, Data \<mapsto> Map.empty, Rodata \<mapsto> Map.empty, Bss \<mapsto> Map.empty],
       got = \<lparr> pltGot = None, localsTable = [], globalsTable = [] \<rparr> \<rparr>"

text \<open>
  One choice of the functions of \<open>Externals\<close>, used only by the concrete instances: a
  symbol prints as its name, or as \<open>D_\<close> and its address when it has none; the label of a
  data symbol is \<open>dlabel\<close>; words are laid out big-endian; a string runs up to the first
  zero byte, \<open>RuntimeError\<close> when there is none and \<open>UnicodeDecodeError\<close> for a byte
  of 128 or more; the float 1.0 prints as \<open>1\<close>.
\<close>

definition exampleGetName :: "ContextSymbol \<Rightarrow> string" where
  "exampleGetName c = (case name c of Some n \<Rightarrow> n | None \<Rightarrow> ''D_'' @ formatHex 8 (vram c))"

definition exampleGetSymbolLabel :: "ContextSymbol \<Rightarrow> string" where
  "exampleGetSymbolLabel c =
     (if symType c = Some Function then ''glabel ''
      else if symType c = Some JumpTableLabel then ''jlabel '' else ''dlabel '') @ exampleGetName c"

definition exampleWordsToBytes :: "int list \<Rightarrow> int list" where
  "exampleWordsToBytes ws =
     concat (map (\<lambda>w. [drop_bit 24 w AND 0xFF, drop_bit 16 w AND 0xFF, drop_bit 8 w AND 0xFF, w AND 0xFF]) ws)"

definition exampleDecodeString :: "int list \<Rightarrow> nat \<Rightarrow> string \<Rightarrow> PyError + (string list \<times> nat)" where
  "exampleDecodeString buffer offset encoding =
     (let rest = drop offset buffer;
          raw = takeWhile (\<lambda>b. b \<noteq> 0) rest
      in if length raw = length rest then Inl RuntimeError
         else if list_ex (\<lambda>b. 128 \<le> b) raw then Inl UnicodeDecodeError
         else if raw = [] then Inr ([], 0)
         else Inr ([map char_of raw], length raw))"

definition exampleExternals :: Externals where
  "exampleExternals =
     \<lparr> getName = exampleGetName,
       getSymbolLabel = exampleGetSymbolLabel,
       getSymbolPlusOffset = (\<lambda>c a. if a = vram c then exampleGetName c
                                     else exampleGetName c @ '' + 0x'' @ formatHex 1 (a - vram c)),
       getLabelFromSymbol = (\<lambda>c. exampleGetSymbolLabel c @ [CHR 0x0A]),
       getNamePlusOffset = (\<lambda>r w. if w = 0 then relocName r else relocName r @ '' + 0x'' @ formatHex 1 w),
       getSpimdisasmVersionString = ''/* Generated by spimdisasm */'' @ [CHR 0x0A],
       wordToFloatText = (\<lambda>w. if w = 0x3F800000 then ''1'' else ''0x'' @ formatHex 8 w),
       qwordToDoubleText = (\<lambda>d. ''0x'' @ formatHex 16 d),
       wordToCurrenEndian = (\<lambda>w. w),
       wordsToBytes = exampleWordsToBytes,
       decodeString = exampleDecodeString \<rparr>"

text \<open>A SymbolBase of the data section over the given words, as \<open>__init__\<close> leaves it.\<close>

definition dataEmitter :: "int \<Rightarrow> int list \<Rightarrow> SymbolBase" where
  "dataEmitter vram' ws =
     \<lparr> emVromStart = 0x100, emVromEnd = 0x100 + 4 * int (length ws), emInFileOffset = 0,
       emVram = vram', emWords = ws, emSectionType = Data, emSegmentVromStart = 0,
       emOverlayCategory = None, emCommentOffset = 0, endOfLineComment = [],
       stringEncoding = ''EUC-JP'', failedStringDecoding = False \<rparr>"

text \<open>A context whose only symbol, at \<open>0x80000100\<close>, is user-declared with the given type
  and name.\<close>

definition typedContext :: "SymbolType \<Rightarrow> string \<Rightarrow> Context" where
  "typedContext ty nm =
     newContext\<lparr>globalSegment :=
       storeSym emptySegment 0x80000100
         ((newContextSymbol 0x80000100)\<lparr>name := Some nm, symType := Some ty, sectionType := Data,
             isDefined := True, isUserDeclared := True\<rparr>)\<rparr>"

text \<open>
  Two words \<open>41 00 00 00\<close> and \<open>41 00 00 01\<close>: the first is the string \<open>A\<close> with its
  padding, the second has a non-zero byte where the padding of a string must be zero. Two
  words \<open>0x3F800000\<close> (the float 1.0) and \<open>0x7FC00000\<close> (a NaN).
\<close>

definition stringEmitter :: SymbolBase where
  "stringEmitter = dataEmitter 0x80000100 [0x41000000, 0x41000001]"

definition latchedStringEmitter :: SymbolBase where
  "latchedStringEmitter = stringEmitter\<lparr>failedStringDecoding := True\<rparr>"

definition floatEmitter :: SymbolBase where
  "floatEmitter = dataEmitter 0x80000100 [0x3F800000, 0x7FC00000]"


text \<open>Two calls of \<open>disassemble\<close> in succession on the same object: the second call
  starts from the object as the first one left it. The two returned strings.\<close>

definition disassembleTwice ::
  "Externals \<Rightarrow> GlobalConfig \<Rightarrow> Context \<Rightarrow> 'a SymbolBase_scheme \<Rightarrow> bool \<Rightarrow> bool \<Rightarrow> PyError + (string \<times> string)" where
  "disassembleTwice ext cfg ctx e migrate useGlobalLabel =
     bindE (disassemble ext cfg ctx e migrate useGlobalLabel) (\<lambda>first.
     bindE (disassemble ext cfg ctx (snd first) migrate useGlobalLabel) (\<lambda>second.
       Inr (fst first, fst second)))"

subsection \<open>SymbolRodata.analyze and sequences of analysis steps\<close>
















text \<open>
  Concrete inputs: a bss section \<open>[0x80000100, 0x80000120)\<close> and a context whose only
  symbol, at \<open>0x80000100\<close>, has the declared size 8.
\<close>

definition bssExampleSection :: SectionBss where
  "bssExampleSection = newSectionBss 0x100 0x120 0x80000100 0x80000120"

definition bssSizedContext :: Context where
  "bssSizedContext =
     newContext\<lparr>globalSegment :=
       storeSym emptySegment 0x80000100
         ((newContextSymbol 0x80000100)\<lparr>name := Some ''a'', symSize := Some 8, isUserDeclared := True\<rparr>)\<rparr>"

section \<open>Properties\<close>

subsection \<open>SortedDict\<close>

lemma sd_get_sd_set: "sd_get (sd_set d k v) k' = (if k' = k then Some v else sd_get d k')"
  by (simp add: sd_get_def sd_set_def update_conv')

subsection \<open>The operations of SymbolsSegment\<close>

lemma addSymbol_get:
  "sd_get (symbols (fst (addSymbol seg a st ag vr))) b =
     (if b = a then Some (snd (addSymbol seg a st ag vr)) else sd_get (symbols seg) b)"
  by (simp add: addSymbol_def Let_def storeSym_def sd_get_sd_set)

lemma addSymbol_snd_existing:
  assumes "sd_get (symbols seg) a = Some c"
  shows "name (snd (addSymbol seg a st ag vr)) = name c"
    and "symType (snd (addSymbol seg a st ag vr)) = symType c"
    and "symSize (snd (addSymbol seg a st ag vr)) = symSize c"
    and "isUserDeclared (snd (addSymbol seg a st ag vr)) = isUserDeclared c"
    and "isAutogenerated (snd (addSymbol seg a st ag vr)) = isAutogenerated c"
    and "sectionType (snd (addSymbol seg a st ag vr)) = (if sectionType c = Unknown then st else sectionType c)"
  using assms by (simp_all add: addSymbol_def Let_def)

lemma addSymbol_snd_new:
  assumes "sd_get (symbols seg) a = None"
  shows "sectionType (snd (addSymbol seg a st ag vr)) = st"
  using assms by (simp add: addSymbol_def Let_def newContextSymbol_def)

lemma applyOp_other:
  "b \<noteq> opAddress op \<Longrightarrow> sd_get (symbols (applyOp seg op)) b = sd_get (symbols seg) b"
  by (cases op) (simp_all add: addFunction_def addBranchLabel_def addJumpTable_def addJumpTableLabel_def
      Let_def split_beta storeSym_def sd_get_sd_set addSymbol_get)

lemma applyOp_section_same:
  assumes "sd_get (symbols seg) b = Some c" "sectionType c \<noteq> Unknown" "\<not> forcesText op"
  shows "sectionAt (applyOp seg op) b = Some (sectionType c)"
proof (cases "b = opAddress op")
  case False
  then show ?thesis using assms by (simp add: sectionAt_def applyOp_other)
next
  case True
  then show ?thesis using assms
    by (cases op) (simp_all add: sectionAt_def addBranchLabel_def addJumpTable_def
      Let_def split_beta storeSym_def sd_get_sd_set addSymbol_get addSymbol_snd_existing)
qed

lemma applyOp_section_forced:
  assumes "forcesText op"
  shows "sectionAt (applyOp seg op) (opAddress op) = Some Text"
  using assms
  by (cases op) (simp_all add: sectionAt_def addFunction_def addJumpTableLabel_def
      Let_def split_beta storeSym_def sd_get_sd_set)

lemma applyOps_section:
  assumes "sd_get (symbols seg) b = Some c" "sectionType c \<noteq> Unknown"
    and "\<forall>op \<in> set ops. forcesText op \<longrightarrow> opAddress op \<noteq> b"
  shows "sectionAt (applyOps seg ops) b = Some (sectionType c)"
  using assms
proof (induction ops arbitrary: seg c)
  case Nil
  then show ?case by (simp add: applyOps_def sectionAt_def)
next
  case (Cons op ops)
  have step: "sectionAt (applyOp seg op) b = Some (sectionType c)"
  proof (cases "forcesText op")
    case True
    with Cons.prems have "b \<noteq> opAddress op" by auto
    then show ?thesis using Cons.prems by (simp add: sectionAt_def applyOp_other)
  next
    case False
    then show ?thesis using Cons.prems applyOp_section_same by blast
  qed
  then obtain c' where c': "sd_get (symbols (applyOp seg op)) b = Some c'" "sectionType c' = sectionType c"
    by (auto simp: sectionAt_def)
  have "sectionAt (applyOps (applyOp seg op) ops) b = Some (sectionType c')"
    using Cons.IH[OF c'(1)] c'(2) Cons.prems by simp
  then show ?case using c' by (simp add: applyOps_def)
qed

lemma getKeyRight_le:
  assumes "getKeyRight d a True = Some (k, v)"
  shows "k \<le> a" and "map_of d k = Some v"
proof -
  define ks where "ks = filter (\<lambda>k. k \<le> a) (map fst d)"
  have unfolded: "getKeyRight d a True =
      (if ks = [] then None
       else case map_of d (Max (set ks)) of None \<Rightarrow> None | Some v \<Rightarrow> Some (Max (set ks), v))"
    unfolding getKeyRight_def ks_def Let_def if_True by (rule refl)
  from assms unfolded have ne: "ks \<noteq> []"
    by (auto split: if_splits)
  from assms unfolded ne have k: "k = Max (set ks)" and v: "map_of d k = Some v"
    by (auto split: option.splits)
  have "Max (set ks) \<in> set ks" using ne by (intro Max_in) auto
  then show "k \<le> a" using k by (simp add: ks_def)
  show "map_of d k = Some v" by (rule v)
qed

subsection \<open>getSymbol and symbols of unknown size\<close>

text \<open>
  Claim C3. With \<open>PRODUCE_SYMBOLS_PLUS_OFFSET\<close> enabled, when
  \<open>getSymbol(a, tryPlusOffset=True, checkUpperLimit=True)\<close> finds a predecessor symbol
  (greatest key \<open>\<le> a\<close>) whose size is unknown, it returns none. The guard of getSymbol
  is \<open>address >= symVram + contextSym.getSize()\<close>; with the size of an unset symbol
  counted as 0 (\<open>getSize\<close> is modelled from the spec) and the predecessor's key at most
  \<open>a\<close>, the guard always fires.
\<close>

theorem getSymbol_unknown_size_none:
  "PRODUCE_SYMBOLS_PLUS_OFFSET cfg \<Longrightarrow> getKeyRight (symbols seg) a True = Some (k, c) \<Longrightarrow>
   symSize c = None \<Longrightarrow> getSymbol cfg seg a True True = None"
  using getKeyRight_le(1)[of "symbols seg" a k c]
  by (simp add: getSymbol_def getSize_def)

lemma dataSymbolSegment_symbols:
  "symbols dataSymbolSegment = [(0x80000100, (newContextSymbol 0x80000100)\<lparr>sectionType := Data\<rparr>)]"
  by (simp add: dataSymbolSegment_def addSymbol_def emptySegment_def sd_get_def sd_set_def
      storeSym_def Let_def newContextSymbol_def)

text \<open>Instance: a symbol of unknown size at \<open>0x80000100\<close>, looked up at \<open>0x80000104\<close>.\<close>

theorem getSymbol_unknown_size_none_witness:
  "getKeyRight (symbols dataSymbolSegment) 0x80000104 True
      = Some (0x80000100, (newContextSymbol 0x80000100)\<lparr>sectionType := Data\<rparr>)
   \<and> getSymbol exampleConfig dataSymbolSegment 0x80000104 True True = None"
proof -
  have k: "getKeyRight (symbols dataSymbolSegment) 0x80000104 True
      = Some (0x80000100, (newContextSymbol 0x80000100)\<lparr>sectionType := Data\<rparr>)"
    by (simp add: dataSymbolSegment_symbols getKeyRight_def Let_def)
  have p: "PRODUCE_SYMBOLS_PLUS_OFFSET exampleConfig" by (simp add: exampleConfig_def)
  have s: "symSize ((newContextSymbol 0x80000100)\<lparr>sectionType := Data\<rparr>) = None"
    by (simp add: newContextSymbol_def)
  show ?thesis using getSymbol_unknown_size_none[OF p k s] k by simp
qed

subsection \<open>The section of a symbol\<close>

text \<open>
  Claim C4, as amended. Once the section of a symbol is not Unknown, \<open>addSymbol\<close>,
  \<open>addBranchLabel\<close> and \<open>addJumpTable\<close> never change it, in any number and order, and
  neither do \<open>addFunction\<close> and \<open>addJumpTableLabel\<close> called at other addresses;
  \<open>addSymbol\<close> upgrades the section only from Unknown. \<open>addFunction\<close> and
  \<open>addJumpTableLabel\<close> called at the symbol's own address set its section to Text,
  whatever it was.
\<close>

theorem section_fixed_unless_forced:
  "sd_get (symbols seg) b = Some c \<Longrightarrow> sectionType c \<noteq> Unknown \<Longrightarrow>
     ((\<forall>op \<in> set ops. forcesText op \<longrightarrow> opAddress op \<noteq> b) \<longrightarrow>
        sectionAt (applyOps seg ops) b = Some (sectionType c))
   \<and> sectionAt (fst (addSymbol seg b st ag vr)) b = Some (sectionType c)
   \<and> sectionAt (fst (addFunction seg b ag vr)) b = Some Text
   \<and> sectionAt (fst (addJumpTableLabel seg b ag vr)) b = Some Text"
  using applyOps_section[of seg b c ops] applyOp_section_same[of seg b c "OpAddSymbol b st ag vr"]
    applyOp_section_forced[of "OpAddFunction b ag vr" seg]
    applyOp_section_forced[of "OpAddJumpTableLabel b ag vr" seg]
  by simp

text \<open>Instance: a Data symbol at \<open>0x80000100\<close>.\<close>

theorem section_fixed_unless_forced_witness:
  "sectionAt (applyOps dataSymbolSegment
      [OpAddSymbol 0x80000100 Bss True None, OpAddBranchLabel 0x80000100 False None,
       OpAddJumpTable 0x80000100 False None, OpAddFunction 0x80000200 False None]) 0x80000100 = Some Data
   \<and> sectionAt (fst (addSymbol dataSymbolSegment 0x80000100 Rodata False None)) 0x80000100 = Some Data
   \<and> sectionAt (fst (addFunction dataSymbolSegment 0x80000100 False None)) 0x80000100 = Some Text
   \<and> sectionAt (fst (addJumpTableLabel dataSymbolSegment 0x80000100 False None)) 0x80000100 = Some Text"
proof -
  have g: "sd_get (symbols dataSymbolSegment) 0x80000100 = Some ((newContextSymbol 0x80000100)\<lparr>sectionType := Data\<rparr>)"
    by (simp add: dataSymbolSegment_symbols sd_get_def)
  have n: "sectionType ((newContextSymbol 0x80000100)\<lparr>sectionType := Data\<rparr>) \<noteq> Unknown" by simp
  show ?thesis
    using section_fixed_unless_forced[OF g n, of "[OpAddSymbol 0x80000100 Bss True None, OpAddBranchLabel 0x80000100 False None,
       OpAddJumpTable 0x80000100 False None, OpAddFunction 0x80000200 False None]" Rodata False None]
    by simp
qed

text \<open>
  Claim C4 as stated fails: a symbol whose section is Data becomes Text when
  \<open>addFunction\<close> is called at its address.
\<close>

theorem addFunction_changes_section:
  "sectionAt dataSymbolSegment 0x80000100 = Some Data
   \<and> sectionAt (fst (addFunction dataSymbolSegment 0x80000100 True None)) 0x80000100 = Some Text"
  by (simp add: sectionAt_def dataSymbolSegment_symbols sd_get_def addFunction_def addSymbol_def
      Let_def storeSym_def sd_set_def split_beta)

subsection \<open>The default banned symbols\<close>

text \<open>
  Claim C8. \<open>fillDefaultBannedSymbols\<close> adds exactly the five addresses 0x7FFFFFE0,
  0x7FFFFFF0, 0x7FFFFFFF, 0x80000010, 0x80000020 to \<open>bannedSymbols\<close> (a union: what was
  banned stays banned) and leaves every other attribute of the Context as it was.
\<close>

theorem fillDefaultBannedSymbols_union:
  "bannedSymbols (fillDefaultBannedSymbols ctx)
      = bannedSymbols ctx \<union> {0x7FFFFFE0, 0x7FFFFFF0, 0x7FFFFFFF, 0x80000010, 0x80000020}
   \<and> globalSegment (fillDefaultBannedSymbols ctx) = globalSegment ctx
   \<and> unknownSegmentOfContext (fillDefaultBannedSymbols ctx) = unknownSegmentOfContext ctx
   \<and> contextIsTheUnknownSegment (fillDefaultBannedSymbols ctx) = contextIsTheUnknownSegment ctx
   \<and> overlaySegments (fillDefaultBannedSymbols ctx) = overlaySegments ctx
   \<and> totalVramStart (fillDefaultBannedSymbols ctx) = totalVramStart ctx
   \<and> totalVramEnd (fillDefaultBannedSymbols ctx) = totalVramEnd ctx
   \<and> defaultVramRanges (fillDefaultBannedSymbols ctx) = defaultVramRanges ctx
   \<and> relocInfosPerSection (fillDefaultBannedSymbols ctx) = relocInfosPerSection ctx
   \<and> got (fillDefaultBannedSymbols ctx) = got ctx"
  by (simp add: fillDefaultBannedSymbols_def N64DefaultBanned_def)

subsection \<open>The hardware registers\<close>
lemma body_get:
  "sd_get (symbols (fillHardwareRegs_body u seg (v, n))) b =
     (if b = v then Some ((snd (addSymbol seg v Unknown False None))
         \<lparr>name := (if u then Some n else None), symType := Some HardwareReg, symSize := Some 4,
          isDefined := True, isUserDeclared := True\<rparr>)
      else sd_get (symbols seg) b)"
  by (simp add: fillHardwareRegs_body_def Let_def split_beta storeSym_def sd_get_sd_set addSymbol_get)

lemma foldl_body_other:
  "v \<notin> fst ` set table \<Longrightarrow>
   sd_get (symbols (foldl (fillHardwareRegs_body u) seg table)) v = sd_get (symbols seg) v"
proof (induction table arbitrary: seg)
  case Nil then show ?case by simp
next
  case (Cons e table)
  obtain v' n' where e: "e = (v', n')" by (cases e)
  with Cons.prems have "v \<noteq> v'" "v \<notin> fst ` set table" by auto
  then show ?case using Cons.IH[of "fillHardwareRegs_body u seg e"] e by (simp add: body_get)
qed

lemma fillHardwareRegsFrom_entry:
  assumes "distinct (map fst table)" "(v, n) \<in> set table"
  shows "\<exists>c. sd_get (symbols (fillHardwareRegsFrom table seg u)) v = Some c
          \<and> name c = (if u then Some n else None) \<and> symType c = Some HardwareReg
          \<and> symSize c = Some 4 \<and> isDefined c \<and> isUserDeclared c"
  using assms
proof (induction table arbitrary: seg)
  case Nil then show ?case by simp
next
  case (Cons e table)
  obtain v' n' where e: "e = (v', n')" by (cases e)
  show ?case
  proof (cases "(v, n) = e")
    case True
    with Cons.prems e have "v \<notin> fst ` set table" by auto
    then have "sd_get (symbols (foldl (fillHardwareRegs_body u) (fillHardwareRegs_body u seg e) table)) v
       = sd_get (symbols (fillHardwareRegs_body u seg e)) v" by (rule foldl_body_other)
    then show ?thesis using True[symmetric] by (simp add: fillHardwareRegsFrom_def body_get)
  next
    case False
    with Cons.prems have "distinct (map fst table)" "(v, n) \<in> set table" by auto
    from Cons.IH[OF this, of "fillHardwareRegs_body u seg e"]
    show ?thesis by (simp add: fillHardwareRegsFrom_def)
  qed
qed

lemma N64HardwareRegs_distinct: "distinct (map fst N64HardwareRegs)"
  by (simp add: N64HardwareRegs_def)

text \<open>
  Claim C10. For every address of the hardware-register table, \<open>fillHardwareRegs\<close> leaves
  a symbol whose name is unset when \<open>useRealNames\<close> is false and the table's register name
  when it is true, with type hardwarereg, size 4, \<open>isDefined\<close> and \<open>isUserDeclared\<close>.
\<close>

theorem fillHardwareRegs_entries:
  "\<forall>(v, n) \<in> set N64HardwareRegs.
     \<exists>c. sd_get (symbols (fillHardwareRegs seg useRealNames)) v = Some c
        \<and> name c = (if useRealNames then Some n else None)
        \<and> symType c = Some HardwareReg \<and> symSize c = Some 4
        \<and> isDefined c \<and> isUserDeclared c"
proof (clarify)
  fix v n
  assume "(v, n) \<in> set N64HardwareRegs"
  from fillHardwareRegsFrom_entry[OF N64HardwareRegs_distinct this, of seg useRealNames]
  show "\<exists>c. sd_get (symbols (fillHardwareRegs seg useRealNames)) v = Some c
        \<and> name c = (if useRealNames then Some n else None)
        \<and> symType c = Some HardwareReg \<and> symSize c = Some 4
        \<and> isDefined c \<and> isUserDeclared c"
    unfolding fillHardwareRegs_def .
qed

text \<open>Instance: the register at \<open>0xA4600005\<close>, without and with real names.\<close>

theorem fillHardwareRegs_entries_witness:
  "(\<exists>c. sd_get (symbols (fillHardwareRegs emptySegment False)) 0xA4600005 = Some c
        \<and> name c = None \<and> symType c = Some HardwareReg \<and> symSize c = Some 4
        \<and> isDefined c \<and> isUserDeclared c)
   \<and> (\<exists>c. sd_get (symbols (fillHardwareRegs emptySegment True)) 0xA4600005 = Some c
        \<and> name c = Some ''D_A4600005'' \<and> symType c = Some HardwareReg \<and> symSize c = Some 4
        \<and> isDefined c \<and> isUserDeclared c)"
proof -
  have m: "(0xA4600005, ''D_A4600005'') \<in> set N64HardwareRegs"
    by (simp add: N64HardwareRegs_def)
  show ?thesis
    using fillHardwareRegs_entries[of emptySegment False] fillHardwareRegs_entries[of emptySegment True] m
    by fastforce
qed

subsection \<open>SectionBss.analyze\<close>

text \<open>
  C1. The claim: after \<open>SectionBss.analyze\<close> the emitted SymbolBss of two adjacent sorted
  offsets have the space between the offsets, and the last one the space up to
  \<open>bssTotalSize\<close>. On the code no SymbolBss is emitted: for every configuration, every
  context and every section, \<open>analyze\<close> ends with the \<open>AttributeError\<close> of the read of
  \<open>self.context.offsetSymbols\<close>, before an offset is collected or a space is computed.
\<close>

theorem SectionBss_analyze_raises:
  "SectionBss_analyze cfg ctx sec = Inl AttributeError"
  by (simp add: SectionBss_analyze_def Context_offsetSymbols_def bindE_def Let_def split: prod.splits)

text \<open>
  C2. The claim: a symbol of the bss range with a declared size adds the boundary offset
  \<open>vram + size - bssVramStart\<close>, which caps the space of the symbol before it. On the
  section \<open>[0x80000100, 0x80000120)\<close> with one symbol of declared size 8 at its start,
  \<open>analyze\<close> raises \<open>AttributeError\<close>: no boundary offset is inserted and no space is
  capped.
\<close>

theorem SectionBss_analyze_sized_raises:
  "map_option symSize (sd_get (symbols (globalSegment bssSizedContext)) 0x80000100) = Some (Some 8)
   \<and> bssVramStart bssExampleSection = 0x80000100
   \<and> bssVramEnd bssExampleSection = 0x80000120
   \<and> SectionBss_analyze exampleConfig bssSizedContext bssExampleSection = Inl AttributeError"
  by code_simp

subsection \<open>The migrate argument of disassemble\<close>

text \<open>
  C9. For a SymbolBase and for a SymbolBss, and for every value of \<open>useGlobalLabel\<close>,
  \<open>disassemble\<close> with \<open>migrate = True\<close> returns what it returns with
  \<open>migrate = False\<close>: the version string appended for \<open>migrate\<close> is dropped when
  \<open>output\<close> is assigned again. The equality covers the returned string, the state of the
  object after the call and a raised exception.
\<close>

theorem disassemble_migrate_irrelevant:
  "disassemble ext cfg ctx e True useGlobalLabel = disassemble ext cfg ctx e False useGlobalLabel
   \<and> SymbolBss_disassemble ext cfg ctx b True useGlobalLabel
       = SymbolBss_disassemble ext cfg ctx b False useGlobalLabel"
  by (simp add: disassemble_def SymbolBss_disassemble_def Let_def)

subsection \<open>Calling disassemble twice\<close>

lemma bindE_Inr_iff: "bindE m f = Inr y \<longleftrightarrow> (\<exists>a. m = Inr a \<and> f a = Inr y)"
  by (cases m) (simp_all add: bindE_def)

lemma dataWord_no_string:
  assumes "\<not> isString (globalSegment ctx) e" "dataWord ext cfg ctx e i ca cc = Inr (r, e1)"
  shows "e1 = e"
proof -
  have ns: "isString (globalSegment ctx) e = False" using assms(1) by simp
  show ?thesis using assms(2) unfolding dataWord_def Let_def
    by (simp add: ns bindE_def split: if_splits sum.splits)
qed

lemma dataStep_no_string:
  assumes "\<not> isString (globalSegment ctx) e" "dataStep ext cfg ctx e i ca cc = Inr (t, k, e1)"
  shows "e1 = e"
proof -
  from assms(2) obtain r where r: "dataWord ext cfg ctx e i ca cc = Inr r" and e1: "e1 = snd r"
    by (auto simp: dataStep_def Let_def bindE_Inr_iff)
  from dataWord_no_string[OF assms(1), of ext cfg i ca cc "fst r" "snd r"] r e1
  show ?thesis by simp
qed

text \<open>The loop changes nothing of the object but the flag \<open>_failedStringDecoding\<close>.\<close>

lemma dataLoop_frame:
  "dataLoop ext cfg ctx ca cc i e out = Inr (out', e') \<Longrightarrow> \<exists>b. e' = e\<lparr>failedStringDecoding := b\<rparr>"
proof (induction ext cfg ctx ca cc i e out rule: dataLoop.induct)
  case (1 ext cfg ctx ca cc i e out)
  show ?case
  proof (cases "int i < SymbolBase_sizew e")
    case False
    with "1.prems" have "e' = e" by (simp add: dataLoop.simps)
    then have "e' = e\<lparr>failedStringDecoding := failedStringDecoding e\<rparr>" by simp
    then show ?thesis by blast
  next
    case True
    with "1.prems" obtain st where st: "dataStep ext cfg ctx e i ca cc = Inr st"
      and rest: "dataLoop ext cfg ctx ca cc (i + fst (snd st) + 1)
          (e\<lparr>failedStringDecoding := failedStringDecoding (snd (snd st))\<rparr>) (out @ fst st) = Inr (out', e')"
      by (subst (asm) dataLoop.simps) (auto split: sum.splits)
    from "1.IH"[OF True st rest] obtain b where
      "e' = (e\<lparr>failedStringDecoding := failedStringDecoding (snd (snd st))\<rparr>)\<lparr>failedStringDecoding := b\<rparr>"
      by blast
    then have "e' = e\<lparr>failedStringDecoding := b\<rparr>" by simp
    then show ?thesis by blast
  qed
qed

text \<open>Once the flag is set the loop leaves the object as it is.\<close>

lemma dataLoop_latched:
  "failedStringDecoding e \<Longrightarrow> dataLoop ext cfg ctx ca cc i e out = Inr (out', e') \<Longrightarrow> e' = e"
proof (induction ext cfg ctx ca cc i e out rule: dataLoop.induct)
  case (1 ext cfg ctx ca cc i e out)
  show ?case
  proof (cases "int i < SymbolBase_sizew e")
    case False
    with "1.prems" show ?thesis by (simp add: dataLoop.simps)
  next
    case True
    with "1.prems" obtain st where st: "dataStep ext cfg ctx e i ca cc = Inr st"
      and rest: "dataLoop ext cfg ctx ca cc (i + fst (snd st) + 1)
          (e\<lparr>failedStringDecoding := failedStringDecoding (snd (snd st))\<rparr>) (out @ fst st) = Inr (out', e')"
      by (subst (asm) dataLoop.simps) (auto split: sum.splits)
    have ns: "\<not> isString (globalSegment ctx) e" using "1.prems"(1) by (simp add: isString_def)
    have "snd (snd st) = e"
      using dataStep_no_string[OF ns, of ext cfg i ca cc "fst st" "fst (snd st)" "snd (snd st)"] st
      by simp
    then have same: "e\<lparr>failedStringDecoding := failedStringDecoding (snd (snd st))\<rparr> = e" by simp
    from "1.IH"[OF True st _ rest] same "1.prems"(1) show ?thesis by simp
  qed
qed

lemma disassemble_Inr:
  "disassemble ext cfg ctx e m u = Inr (out, e') \<Longrightarrow>
     \<exists>out0 ca cc. dataLoop ext cfg ctx ca cc 0 e out0 = Inr (out, e')"
  by (auto simp: disassemble_def disassembleAsData_def Let_def bindE_Inr_iff split: if_splits)

lemma disassemble_frame:
  assumes "disassemble ext cfg ctx e m u = Inr (out, e')"
  shows "\<exists>b. e' = e\<lparr>failedStringDecoding := b\<rparr>"
proof -
  from disassemble_Inr[OF assms] obtain out0 ca cc
    where "dataLoop ext cfg ctx ca cc 0 e out0 = Inr (out, e')" by blast
  then show ?thesis by (rule dataLoop_frame)
qed

lemma disassemble_latched:
  assumes "failedStringDecoding e" "disassemble ext cfg ctx e m u = Inr (out, e')"
  shows "e' = e"
proof -
  from disassemble_Inr[OF assms(2)] obtain out0 ca cc
    where "dataLoop ext cfg ctx ca cc 0 e out0 = Inr (out, e')" by blast
  with assms(1) show ?thesis by (rule dataLoop_latched)
qed

text \<open>
  C7, as amended. The bytes, the context and the configuration are fixed; the object \<open>e\<close>
  carries the flag \<open>_failedStringDecoding\<close>, which \<open>disassembleAsData\<close> sets when a word of
  a string symbol fails to decode and never clears. If a call of \<open>SymbolBase.disassemble\<close>
  returns the string \<open>out1\<close> and leaves the object \<open>e1\<close>, then: when the call did not
  change the flag, the next call returns \<open>out1\<close> again; a flag that was set stays set; and
  whatever the second call returns, every later call returns the same string and leaves
  the object as it is.
\<close>

theorem disassemble_repeat:
  assumes "disassemble ext cfg ctx e m u = Inr (out1, e1)"
  shows "(failedStringDecoding e1 = failedStringDecoding e \<longrightarrow>
            disassemble ext cfg ctx e1 m u = Inr (out1, e1))
       \<and> (failedStringDecoding e \<longrightarrow> failedStringDecoding e1)
       \<and> (\<forall>out2 e2. disassemble ext cfg ctx e1 m u = Inr (out2, e2) \<longrightarrow>
            disassemble ext cfg ctx e2 m u = Inr (out2, e2))"
proof -
  from disassemble_frame[OF assms] obtain b where b: "e1 = e\<lparr>failedStringDecoding := b\<rparr>" by blast
  have same: "e1 = e" if "failedStringDecoding e1 = failedStringDecoding e"
    using that b by simp
  have mono: "failedStringDecoding e1" if "failedStringDecoding e"
    using disassemble_latched[OF that assms] that by simp
  have stable: "disassemble ext cfg ctx e2 m u = Inr (out2, e2)"
    if second: "disassemble ext cfg ctx e1 m u = Inr (out2, e2)" for out2 e2
  proof (cases "failedStringDecoding e1")
    case True
    from disassemble_latched[OF True second] second show ?thesis by simp
  next
    case False
    with mono have "\<not> failedStringDecoding e" by blast
    with False same have "e1 = e" by simp
    with assms second show ?thesis by simp
  qed
  have c1: "failedStringDecoding e1 = failedStringDecoding e \<longrightarrow>
            disassemble ext cfg ctx e1 m u = Inr (out1, e1)"
  proof
    assume "failedStringDecoding e1 = failedStringDecoding e"
    then have "e1 = e" by (rule same)
    with assms show "disassemble ext cfg ctx e1 m u = Inr (out1, e1)" by simp
  qed
  have c2: "failedStringDecoding e \<longrightarrow> failedStringDecoding e1"
    using mono by blast
  have c3: "\<forall>out2 e2. disassemble ext cfg ctx e1 m u = Inr (out2, e2) \<longrightarrow>
            disassemble ext cfg ctx e2 m u = Inr (out2, e2)"
    using stable by blast
  from c1 c2 c3 show ?thesis by (intro conjI)
qed

text \<open>
  The string example: the first call prints the first word as a string and, the second
  word failing to decode, sets the flag; the calls after it print both words as
  \<open>.word\<close>. The float example never touches the flag and prints the same text again.
\<close>

lemma stringExample_first:
  "disassemble exampleExternals exampleConfig (typedContext String ''msg'') stringEmitter False True
     = Inr (''dlabel msg\<newline> .asciz '' @ [CHR 0x22] @ ''A'' @ [CHR 0x22]
              @ ''\<newline> .balign 4\<newline> .word 0x41000001\<newline>'', latchedStringEmitter)"
  by code_simp

lemma stringExample_second:
  "disassemble exampleExternals exampleConfig (typedContext String ''msg'') latchedStringEmitter False True
     = Inr (''dlabel msg\<newline> .word 0x41000000\<newline> .word 0x41000001\<newline>'', latchedStringEmitter)"
  by code_simp

lemma floatExample_disassemble:
  "disassemble exampleExternals exampleConfig (typedContext Float ''one'') floatEmitter False True
     = Inr (''dlabel one\<newline> .float 1\<newline> .word 0x7FC00000\<newline>'', floatEmitter)"
  by code_simp

theorem disassemble_repeat_witness:
  "disassemble exampleExternals exampleConfig (typedContext Float ''one'') floatEmitter False True
     = Inr (''dlabel one\<newline> .float 1\<newline> .word 0x7FC00000\<newline>'', floatEmitter)
   \<and> disassemble exampleExternals exampleConfig (typedContext String ''msg'') stringEmitter False True
     = Inr (''dlabel msg\<newline> .asciz '' @ [CHR 0x22] @ ''A'' @ [CHR 0x22]
              @ ''\<newline> .balign 4\<newline> .word 0x41000001\<newline>'', latchedStringEmitter)
   \<and> failedStringDecoding latchedStringEmitter
   \<and> disassemble exampleExternals exampleConfig (typedContext String ''msg'') latchedStringEmitter False True
     = Inr (''dlabel msg\<newline> .word 0x41000000\<newline> .word 0x41000001\<newline>'', latchedStringEmitter)"
proof -
  have fl: "failedStringDecoding latchedStringEmitter"
    by (simp add: latchedStringEmitter_def)
  from disassemble_repeat[OF floatExample_disassemble]
  have a: "disassemble exampleExternals exampleConfig (typedContext Float ''one'') floatEmitter False True
     = Inr (''dlabel one\<newline> .float 1\<newline> .word 0x7FC00000\<newline>'', floatEmitter)"
    by simp
  from disassemble_repeat[OF stringExample_first] stringExample_second
  have b: "disassemble exampleExternals exampleConfig (typedContext String ''msg'') latchedStringEmitter False True
     = Inr (''dlabel msg\<newline> .word 0x41000000\<newline> .word 0x41000001\<newline>'', latchedStringEmitter)"
    by blast
  from a stringExample_first fl b show ?thesis by (intro conjI)
qed

text \<open>
  C7 as stated fails. With the words \<open>0x41000000\<close>, \<open>0x41000001\<close> at a user-declared
  String symbol, two calls in succession with the same bytes, context and configuration
  return different strings: the first prints \<open>.asciz "A"\<close> for the first word, the second
  prints it as \<open>.word 0x41000000\<close>.
\<close>

theorem disassemble_twice_differs:
  "disassembleTwice exampleExternals exampleConfig (typedContext String ''msg'') stringEmitter False True
     = Inr (''dlabel msg\<newline> .asciz '' @ [CHR 0x22] @ ''A'' @ [CHR 0x22]
              @ ''\<newline> .balign 4\<newline> .word 0x41000001\<newline>'',
            ''dlabel msg\<newline> .word 0x41000000\<newline> .word 0x41000001\<newline>'')"
  by code_simp

subsection \<open>Words of a Float symbol\<close>






subsection \<open>Name, type and size under the analysis\<close>






























end
